theory Spec2Isabelle
  imports Main "HOL-Library.Code_Target_Numeral"
begin

section \<open>JavaScript strings and values\<close>

text \<open>
  A string is the list of its code units. HOL's \<^typ>\<open>char\<close> has 256 values, so the model
  covers strings whose code units are below 256; of the white space that
  \<^verbatim>\<open>String.prototype.trim\<close> strips, these are the seven characters below.
\<close>

definition js_whitespace :: "char \<Rightarrow> bool" where
  "js_whitespace c =
     (c \<in> set [CHR 0x09, CHR 0x0A, CHR 0x0B, CHR 0x0C, CHR 0x0D, CHR 0x20, CHR 0xA0])"

definition trim :: "string \<Rightarrow> string" where
  "trim s = rev (dropWhile js_whitespace (rev (dropWhile js_whitespace s)))"

text \<open>ASCII letters in lower case, as \<^verbatim>\<open>toLowerCase\<close> maps them.\<close>

definition ascii_lower :: "char \<Rightarrow> char" where
  "ascii_lower c =
     (case map_of (zip ''ABCDEFGHIJKLMNOPQRSTUVWXYZ'' ''abcdefghijklmnopqrstuvwxyz'') c of
        Some d \<Rightarrow> d
      | None \<Rightarrow> c)"

text \<open>
  Numbers: the doubles whose value is an integer, and the three special values; \<open>Num i\<close>
  is the double of value \<open>i\<close>. Fractions are not represented, and \<open>-0\<close> is \<open>Num 0\<close>
  (the two are equal, falsy and print alike).
\<close>

datatype jsnum = Num int | NaN | PosInf | NegInf

text \<open>
  The double nearest to an integer, ties to the even significand: every integer up to
  \<open>2^53\<close> in magnitude is a double; beyond, a double has 53 significant bits, and from
  \<open>2^1024\<close> on the result is an infinity. Sums and products of integer doubles are the
  exact result rounded so.
\<close>

fun bit_length :: "nat \<Rightarrow> nat" where
  "bit_length n = (if n = 0 then 0 else Suc (bit_length (n div 2)))"

declare bit_length.simps [simp del]

definition round_double :: "int \<Rightarrow> jsnum" where
  "round_double x =
     (let a = nat \<bar>x\<bar> in
      if a \<le> 2 ^ 53 then Num x
      else
        let q = 2 ^ (bit_length a - 53);
            m = a div q;
            r = a mod q;
            m' = (if 2 * r < q then m
                  else if q < 2 * r then m + 1
                  else if even m then m else m + 1);
            y = m' * q
        in if 2 ^ 1024 \<le> y then (if 0 < x then PosInf else NegInf)
           else Num (if 0 < x then int y else - int y))"

text \<open>Decimal digits of a natural number.\<close>

fun digits :: "nat \<Rightarrow> string" where
  "digits n =
     (if n < 10 then [''0123456789'' ! n]
      else digits (n div 10) @ [''0123456789'' ! (n mod 10)])"

declare digits.simps [simp del]

text \<open>
  A value as \<^verbatim>\<open>JSON.parse\<close> or a configuration file delivers it, and \<^verbatim>\<open>undefined\<close>.
  An object is the list of its own properties in enumeration order, each name once
  (a read takes the first binding of a name).
\<close>

datatype jsvalue =
    JUndefined
  | JNull
  | JBool bool
  | JNum jsnum
  | JStr string
  | JArr "jsvalue list"
  | JObj "(string \<times> jsvalue) list"

datatype jstype = TUndefined | TObject | TBoolean | TNumber | TString

fun typeof :: "jsvalue \<Rightarrow> jstype" where
  "typeof JUndefined = TUndefined"
| "typeof JNull = TObject"
| "typeof (JBool b) = TBoolean"
| "typeof (JNum n) = TNumber"
| "typeof (JStr s) = TString"
| "typeof (JArr xs) = TObject"
| "typeof (JObj kvs) = TObject"

fun truthy :: "jsvalue \<Rightarrow> bool" where
  "truthy JUndefined = False"
| "truthy JNull = False"
| "truthy (JBool b) = b"
| "truthy (JNum n) = (n \<noteq> Num 0 \<and> n \<noteq> NaN)"
| "truthy (JStr s) = (s \<noteq> [])"
| "truthy (JArr xs) = True"
| "truthy (JObj kvs) = True"

datatype js_error = TypeError

text \<open>
  Reading a property. The source reads the names \<^verbatim>\<open>ok\<close>, \<^verbatim>\<open>update_id\<close>, \<^verbatim>\<open>message\<close>,
  \<^verbatim>\<open>message_id\<close>, \<^verbatim>\<open>text\<close>, \<^verbatim>\<open>chat_id\<close>, \<^verbatim>\<open>chat\<close>, \<^verbatim>\<open>id\<close>, \<^verbatim>\<open>date\<close>, \<^verbatim>\<open>channels\<close>,
  \<^verbatim>\<open>serverchan-bot\<close> and \<^verbatim>\<open>accounts\<close>: none is an array index, \<^verbatim>\<open>length\<close> or a name
  inherited from a prototype, so only an object's own properties answer.
  \<open>own_prop\<close> is the read on a value that is neither \<^verbatim>\<open>undefined\<close> nor \<^verbatim>\<open>null\<close>;
  \<open>get_prop\<close> is \<^verbatim>\<open>v.name\<close>, which throws on those two; \<open>prop_opt\<close> is \<^verbatim>\<open>v?.name\<close>.
\<close>

fun own_prop :: "jsvalue \<Rightarrow> string \<Rightarrow> jsvalue" where
  "own_prop (JObj kvs) name = (case map_of kvs name of Some v \<Rightarrow> v | None \<Rightarrow> JUndefined)"
| "own_prop v name = JUndefined"

definition nullish :: "jsvalue \<Rightarrow> bool" where
  "nullish v = (v = JUndefined \<or> v = JNull)"

definition get_prop :: "jsvalue \<Rightarrow> string \<Rightarrow> js_error + jsvalue" where
  "get_prop v name = (if nullish v then Inl TypeError else Inr (own_prop v name))"

definition prop_opt :: "jsvalue \<Rightarrow> string \<Rightarrow> jsvalue" where
  "prop_opt v name = (if nullish v then JUndefined else own_prop v name)"

text \<open>Sequencing of steps that may throw: the first exception ends the evaluation.\<close>

fun js_bind :: "js_error + 'a \<Rightarrow> ('a \<Rightarrow> js_error + 'b) \<Rightarrow> js_error + 'b" where
  "js_bind (Inl e) f = Inl e"
| "js_bind (Inr x) f = f x"

text \<open>The casts \<^verbatim>\<open>as number\<close> and \<^verbatim>\<open>as string\<close>; the source applies them under a
  \<^verbatim>\<open>typeof\<close> guard.\<close>

fun the_num :: "jsvalue \<Rightarrow> jsnum" where
  "the_num (JNum n) = n"
| "the_num v = NaN"

fun the_str :: "jsvalue \<Rightarrow> string" where
  "the_str (JStr s) = s"
| "the_str v = []"

section \<open>Transport client: the webhook payload parser and the secret check\<close>

text \<open>
  \<^verbatim>\<open>ServerChanMessage\<close> and \<^verbatim>\<open>ServerChanUpdate\<close>. The fields \<^verbatim>\<open>from\<close> and \<^verbatim>\<open>text\<close> are
  \<open>msg_from\<close> and \<open>msg_text\<close> here. \<^verbatim>\<open>chat\<close> and \<^verbatim>\<open>from\<close> hold the object as it was
  received: neither the parser nor the polling client checks its shape.
\<close>

record ServerChanMessage =
  message_id :: jsnum
  chat_id :: "jsnum option"
  chat :: "jsvalue option"
  msg_from :: "jsvalue option"
  msg_text :: string
  date :: "jsnum option"

record ServerChanUpdate =
  update_id :: jsnum
  message :: ServerChanMessage

definition parseWebhookPayload :: "jsvalue \<Rightarrow> js_error + ServerChanUpdate option" where
  "parseWebhookPayload body =
     (if \<not> truthy body \<or> typeof body \<noteq> TObject then Inr None
      else
        js_bind (get_prop body ''ok'') (\<lambda>ok.
        if ok \<noteq> JBool True then Inr None
        else
          js_bind (get_prop body ''update_id'') (\<lambda>updateId.
          js_bind (get_prop body ''message'') (\<lambda>message.
          if typeof updateId \<noteq> TNumber \<or> \<not> truthy message \<or> typeof message \<noteq> TObject
          then Inr None
          else
            js_bind (get_prop message ''message_id'') (\<lambda>messageId.
            js_bind (get_prop message ''text'') (\<lambda>text.
            js_bind (get_prop message ''chat_id'') (\<lambda>rawChatId.
            js_bind (get_prop message ''chat'') (\<lambda>chat.
            js_bind
              (if typeof rawChatId = TNumber then Inr rawChatId
               else if truthy chat \<and> typeof chat = TObject then get_prop chat ''id''
               else Inr JUndefined) (\<lambda>chatId.
            if typeof messageId \<noteq> TNumber \<or> typeof chatId \<noteq> TNumber
               \<or> typeof text \<noteq> TString
            then Inr None
            else
              js_bind (get_prop message ''date'') (\<lambda>msgDate.
              Inr (Some
                \<lparr> update_id = the_num updateId,
                  message =
                    \<lparr> message_id = the_num messageId,
                      chat_id = Some (the_num chatId),
                      chat = (if truthy chat \<and> typeof chat = TObject then Some chat else None),
                      msg_from = None,
                      msg_text = the_str text,
                      date = (if typeof msgDate = TNumber then Some (the_num msgDate)
                              else None) \<rparr> \<rparr>)))))))))))"

text \<open>
  The specification's reading of the parser, for comparison with the code: a value is a
  sub-object when it is truthy and of type object; the chat identifier is the direct
  \<^verbatim>\<open>chat_id\<close> field when that is a number, else the \<^verbatim>\<open>id\<close> of the nested \<^verbatim>\<open>chat\<close>
  object; a body is well formed when its \<^verbatim>\<open>ok\<close> is the boolean \<^verbatim>\<open>true\<close>, its \<^verbatim>\<open>update_id\<close>
  a number and its \<^verbatim>\<open>message\<close> a sub-object with a numeric \<^verbatim>\<open>message_id\<close>, a string
  \<^verbatim>\<open>text\<close> and a numeric chat identifier.
\<close>

definition is_object :: "jsvalue \<Rightarrow> bool" where
  "is_object v = (truthy v \<and> typeof v = TObject)"

definition spec_chat_identifier :: "jsvalue \<Rightarrow> jsvalue" where
  "spec_chat_identifier msg =
     (if typeof (own_prop msg ''chat_id'') = TNumber then own_prop msg ''chat_id''
      else if is_object (own_prop msg ''chat'') then own_prop (own_prop msg ''chat'') ''id''
      else JUndefined)"

definition webhook_body_wellformed :: "jsvalue \<Rightarrow> bool" where
  "webhook_body_wellformed body =
     (is_object body \<and>
      own_prop body ''ok'' = JBool True \<and>
      typeof (own_prop body ''update_id'') = TNumber \<and>
      is_object (own_prop body ''message'') \<and>
      typeof (own_prop (own_prop body ''message'') ''message_id'') = TNumber \<and>
      typeof (own_prop (own_prop body ''message'') ''text'') = TString \<and>
      typeof (spec_chat_identifier (own_prop body ''message'')) = TNumber)"

text \<open>A body whose \<^verbatim>\<open>ok\<close> flag is the number 1: truthy, and not the boolean \<^verbatim>\<open>true\<close>.\<close>

definition body_with_ok_one :: jsvalue where
  "body_with_ok_one =
     JObj [(''ok'', JNum (Num 1)), (''update_id'', JNum (Num 5)),
           (''message'', JObj [(''message_id'', JNum (Num 1)), (''chat_id'', JNum (Num 42)),
                               (''text'', JStr ''hi'')])]"

text \<open>Scenario 1's update as a webhook body, and the same with a nested chat object.\<close>

definition body_chat_id :: jsvalue where
  "body_chat_id =
     JObj [(''ok'', JBool True), (''update_id'', JNum (Num 5)),
           (''message'', JObj [(''message_id'', JNum (Num 1)), (''chat_id'', JNum (Num 42)),
                               (''text'', JStr ''hi'')])]"

definition body_nested_chat :: jsvalue where
  "body_nested_chat =
     JObj [(''ok'', JBool True), (''update_id'', JNum (Num 5)),
           (''message'', JObj [(''message_id'', JNum (Num 1)),
                               (''chat'', JObj [(''id'', JNum (Num 42))]),
                               (''text'', JStr ''hi'')])]"

text \<open>
  JSON. A document is what a JSON text denotes; its numbers are the integer doubles and
  an object names each member once. \<open>json_of\<close> is the serialization of a value inside
  a document: \<^verbatim>\<open>NaN\<close> and the infinities become \<^verbatim>\<open>null\<close>, a property whose value is
  \<^verbatim>\<open>undefined\<close> is left out, and \<^verbatim>\<open>undefined\<close> in an array becomes \<^verbatim>\<open>null\<close>.
  \<^verbatim>\<open>JSON.stringify\<close> of \<^verbatim>\<open>undefined\<close> itself is \<^verbatim>\<open>undefined\<close>, here \<open>None\<close>.
\<close>

datatype json =
    JsonNull
  | JsonBool bool
  | JsonNumber int
  | JsonString string
  | JsonArray "json list"
  | JsonObject "(string \<times> json) list"

fun json_of :: "jsvalue \<Rightarrow> json" where
  "json_of JUndefined = JsonNull"
| "json_of JNull = JsonNull"
| "json_of (JBool b) = JsonBool b"
| "json_of (JNum n) = (case n of Num i \<Rightarrow> JsonNumber i | _ \<Rightarrow> JsonNull)"
| "json_of (JStr s) = JsonString s"
| "json_of (JArr xs) = JsonArray (map json_of xs)"
| "json_of (JObj kvs) =
     JsonObject (map (\<lambda>p. (fst p, json_of (snd p))) (filter (\<lambda>p. snd p \<noteq> JUndefined) kvs))"

definition JSON_stringify :: "jsvalue \<Rightarrow> json option" where
  "JSON_stringify v = (if v = JUndefined then None else Some (json_of v))"

fun JSON_parse :: "json \<Rightarrow> jsvalue" where
  "JSON_parse JsonNull = JNull"
| "JSON_parse (JsonBool b) = JBool b"
| "JSON_parse (JsonNumber i) = JNum (Num i)"
| "JSON_parse (JsonString s) = JStr s"
| "JSON_parse (JsonArray ds) = JArr (map JSON_parse ds)"
| "JSON_parse (JsonObject ms) = JObj (map (\<lambda>m. (fst m, JSON_parse (snd m))) ms)"

text \<open>What the serialization and the parse of a document do to the properties of an object.\<close>

abbreviation json_members :: "(string \<times> jsvalue) list \<Rightarrow> (string \<times> jsvalue) list" where
  "json_members kvs \<equiv>
     map (\<lambda>m. (fst m, JSON_parse (snd m)))
       (map (\<lambda>p. (fst p, json_of (snd p))) (filter (\<lambda>p. snd p \<noteq> JUndefined) kvs))"

text \<open>A body whose \<^verbatim>\<open>update_id\<close> is \<^verbatim>\<open>NaN\<close>: the parser accepts the value as it is.\<close>

definition body_with_nan :: jsvalue where
  "body_with_nan =
     JObj [(''ok'', JBool True), (''update_id'', JNum NaN),
           (''message'', JObj [(''message_id'', JNum (Num 1)), (''chat_id'', JNum (Num 42)),
                               (''text'', JStr ''hi'')])]"

text \<open>
  The request headers: a name is bound to a string, to a list of strings, or to nothing
  (\<^verbatim>\<open>undefined\<close>).
\<close>

datatype header_value = HStr string | HArr "string list"

type_synonym headers = "string \<rightharpoonup> header_value"

definition verifyWebhookSecret :: "headers \<Rightarrow> string \<Rightarrow> bool" where
  "verifyWebhookSecret hdrs expectedSecret =
     (let secret = (case hdrs ''x-sc3bot-webhook-secret'' of
                      Some v \<Rightarrow> Some v
                    | None \<Rightarrow> hdrs ''X-Sc3Bot-Webhook-Secret'');
          secretValue = (case secret of
                           None \<Rightarrow> None
                         | Some (HStr s) \<Rightarrow> Some s
                         | Some (HArr xs) \<Rightarrow> (case xs of [] \<Rightarrow> None | x # _ \<Rightarrow> Some x))
      in secretValue = Some expectedSecret)"

section \<open>Accounts\<close>

text \<open>
  \<^verbatim>\<open>ResolvedServerChanBotAccount\<close> and its \<^verbatim>\<open>config\<close> bag, with the optional fields as
  options; the field \<^verbatim>\<open>name\<close> is \<open>account_name\<close> here.
\<close>

record account_config =
  botToken :: "string option"
  chatId :: "string option"
  webhookUrl :: "string option"
  webhookSecret :: "string option"
  webhookPath :: "string option"
  dmPolicy :: "string option"
  allowFrom :: "jsvalue list option"
  pollingEnabled :: "bool option"
  pollingIntervalMs :: "jsnum option"

datatype token_source = FromConfig | FromEnv | NoToken

record ResolvedServerChanBotAccount =
  accountId :: string
  account_name :: "string option"
  enabled :: bool
  tokenSource :: token_source
  config :: account_config

section \<open>Webhook router\<close>

text \<open>
  A \<^verbatim>\<open>WebhookTarget\<close>. Its \<^verbatim>\<open>config\<close> and \<^verbatim>\<open>botToken\<close> are \<open>target_config\<close> and
  \<open>target_botToken\<close> here; the callbacks \<^verbatim>\<open>log\<close> and \<^verbatim>\<open>statusSink\<close> carry no data.
\<close>

record WebhookTarget =
  account :: ResolvedServerChanBotAccount
  target_config :: jsvalue
  target_botToken :: string
  path :: string
  secret :: "string option"

text \<open>
  The registry compares targets by identity (\<^verbatim>\<open>entry !== normalizedTarget\<close>), and every
  registration builds a new object. An entry is therefore a target with the reference
  of its object, and the registry state holds the map \<^verbatim>\<open>webhookTargets\<close> and the next
  unused reference.
\<close>

record registry_entry =
  entry_ref :: nat
  entry_target :: WebhookTarget

record webhook_registry =
  webhookTargets :: "string \<rightharpoonup> registry_entry list"
  next_ref :: nat

definition empty_registry :: webhook_registry where
  "empty_registry = \<lparr> webhookTargets = Map.empty, next_ref = 0 \<rparr>"

definition normalizeWebhookPath :: "string \<Rightarrow> string" where
  "normalizeWebhookPath raw =
     (let trimmed = trim raw in
      if trimmed = [] then ''/''
      else
        let withSlash = (if take 1 trimmed = ''/'' then trimmed else ''/'' @ trimmed) in
        if length withSlash > 1 \<and> last withSlash = CHR ''/'' then butlast withSlash
        else withSlash)"

text \<open>
  \<^verbatim>\<open>resolveWebhookPath\<close>. \<open>url_pathname\<close> stands for \<^verbatim>\<open>new URL(webhookUrl).pathname\<close>,
  with \<open>None\<close> where the constructor throws.
\<close>

definition resolveWebhookPath ::
  "(string \<Rightarrow> string option) \<Rightarrow> string option \<Rightarrow> string option \<Rightarrow> string option" where
  "resolveWebhookPath url_pathname wPath wUrl =
     (case (case wPath of None \<Rightarrow> None | Some p \<Rightarrow> if trim p = [] then None else Some (trim p)) of
        Some trimmedPath \<Rightarrow> Some (normalizeWebhookPath trimmedPath)
      | None \<Rightarrow>
          (case (case wUrl of None \<Rightarrow> None | Some u \<Rightarrow> if trim u = [] then None else Some u) of
             Some u \<Rightarrow>
               (case url_pathname u of
                  Some pathname \<Rightarrow>
                    Some (normalizeWebhookPath (if pathname = [] then ''/'' else pathname))
                | None \<Rightarrow> None)
           | None \<Rightarrow> Some ''/serverchan-bot''))"

text \<open>\<^verbatim>\<open>!target.secret\<close>: the secret is missing or the empty string.\<close>

definition no_secret :: "registry_entry \<Rightarrow> bool" where
  "no_secret t = (case secret (entry_target t) of None \<Rightarrow> True | Some s \<Rightarrow> s = [])"

definition secret_matches :: "headers \<Rightarrow> registry_entry \<Rightarrow> bool" where
  "secret_matches hdrs t =
     (case secret (entry_target t) of
        None \<Rightarrow> False
      | Some s \<Rightarrow> if s = [] then False else verifyWebhookSecret hdrs s)"

definition selectWebhookTarget :: "registry_entry list \<Rightarrow> headers \<Rightarrow> registry_entry option" where
  "selectWebhookTarget targets hdrs =
     (case targets of
        [only] \<Rightarrow>
          if no_secret only then Some only
          else if secret_matches hdrs only then Some only else None
      | _ \<Rightarrow>
          (case find (secret_matches hdrs) targets of
             Some secretTarget \<Rightarrow> Some secretTarget
           | None \<Rightarrow>
               (case filter no_secret targets of
                  [single] \<Rightarrow> Some single
                | _ \<Rightarrow> None)))"

text \<open>\<^verbatim>\<open>webhookTargets.get(key) ?? []\<close>\<close>

definition targets_at :: "webhook_registry \<Rightarrow> string \<Rightarrow> registry_entry list" where
  "targets_at reg key = (case webhookTargets reg key of Some ts \<Rightarrow> ts | None \<Rightarrow> [])"

text \<open>
  The closure that \<^verbatim>\<open>registerServerChanBotWebhookTarget\<close> returns captures \<^verbatim>\<open>key\<close> and
  \<^verbatim>\<open>normalizedTarget\<close>; \<open>run_unregister\<close> is its body.
\<close>

record unregister_closure =
  closure_key :: string
  closure_target :: nat

definition registerServerChanBotWebhookTarget ::
  "WebhookTarget \<Rightarrow> webhook_registry \<Rightarrow> unregister_closure \<times> webhook_registry" where
  "registerServerChanBotWebhookTarget target reg =
     (let key = normalizeWebhookPath (path target);
          normalizedTarget = \<lparr> entry_ref = next_ref reg, entry_target = target\<lparr>path := key\<rparr> \<rparr>;
          existing = targets_at reg key;
          next = existing @ [normalizedTarget]
      in (\<lparr> closure_key = key, closure_target = entry_ref normalizedTarget \<rparr>,
          reg\<lparr> webhookTargets := (webhookTargets reg)(key \<mapsto> next),
               next_ref := Suc (next_ref reg) \<rparr>))"

definition run_unregister :: "unregister_closure \<Rightarrow> webhook_registry \<Rightarrow> webhook_registry" where
  "run_unregister un reg =
     (let updated = filter (\<lambda>entry. entry_ref entry \<noteq> closure_target un)
                      (targets_at reg (closure_key un))
      in if length updated > 0
         then reg\<lparr> webhookTargets := (webhookTargets reg)(closure_key un \<mapsto> updated) \<rparr>
         else reg\<lparr> webhookTargets := (webhookTargets reg)(closure_key un := None) \<rparr>)"

text \<open>A sequence of registrations and of calls of unregister closures.\<close>

datatype registry_op = Register WebhookTarget | Unregister unregister_closure

fun apply_op :: "webhook_registry \<Rightarrow> registry_op \<Rightarrow> webhook_registry" where
  "apply_op reg (Register target) = snd (registerServerChanBotWebhookTarget target reg)"
| "apply_op reg (Unregister un) = run_unregister un reg"

definition run_ops :: "registry_op list \<Rightarrow> webhook_registry \<Rightarrow> webhook_registry" where
  "run_ops ops reg = foldl apply_op reg ops"

text \<open>
  \<^verbatim>\<open>handleServerChanBotWebhookRequest\<close>. Of the request the handler uses the path name of
  its URL, the method, the headers and what \<^verbatim>\<open>readJsonBody\<close> resolves to: an error
  message or the parsed body. The outcome is \<^verbatim>\<open>false\<close> (not handled), or \<^verbatim>\<open>true\<close> with the
  response written (status, \<^verbatim>\<open>Allow\<close> header, text) and the target and update that
  \<^verbatim>\<open>processServerChanBotUpdate\<close> was started with, if any.
\<close>

record webhook_request =
  req_pathname :: string
  req_method :: string
  req_headers :: headers
  req_body :: "string + jsvalue"

datatype webhook_outcome =
    NotHandled
  | Handled nat "string option" string "(registry_entry \<times> ServerChanUpdate) option"
  | HandlerThrew js_error

definition handleServerChanBotWebhookRequest ::
  "webhook_registry \<Rightarrow> webhook_request \<Rightarrow> webhook_outcome" where
  "handleServerChanBotWebhookRequest reg req =
     (let path = normalizeWebhookPath (req_pathname req) in
      case webhookTargets reg path of
        None \<Rightarrow> NotHandled
      | Some targets \<Rightarrow>
          if length targets = 0 then NotHandled
          else if req_method req \<noteq> ''POST''
          then Handled 405 (Some ''POST'') ''Method Not Allowed'' None
          else
            (case selectWebhookTarget targets (req_headers req) of
               None \<Rightarrow> Handled 401 None ''unauthorized'' None
             | Some selected \<Rightarrow>
                 (case req_body req of
                    Inl err \<Rightarrow>
                      Handled (if err = ''payload too large'' then 413 else 400) None err None
                  | Inr v \<Rightarrow>
                      (case parseWebhookPayload v of
                         Inl e \<Rightarrow> HandlerThrew e
                       | Inr None \<Rightarrow> Handled 400 None ''invalid payload'' None
                       | Inr (Some update) \<Rightarrow>
                           Handled 200 None ''ok'' (Some (selected, update))))))"

text \<open>
  Two facts that hold of every registry reached from the empty one: no key is bound to
  an empty list and a stored target's path is its key, itself a normalized path; and
  every reference in use is below the next unused one. \<open>owns_ref\<close> says that the
  reference \<open>r\<close> belongs to the entry \<open>e0\<close> under \<open>key\<close> and to no other entry.
\<close>

definition registry_ok :: "webhook_registry \<Rightarrow> bool" where
  "registry_ok reg =
     (\<forall>k ts. webhookTargets reg k = Some ts \<longrightarrow>
        ts \<noteq> [] \<and> (\<forall>e\<in>set ts. path (entry_target e) = k) \<and>
        (\<exists>raw. k = normalizeWebhookPath raw))"

definition refs_fresh :: "webhook_registry \<Rightarrow> bool" where
  "refs_fresh reg =
     (\<forall>k ts e. webhookTargets reg k = Some ts \<longrightarrow> e \<in> set ts \<longrightarrow> entry_ref e < next_ref reg)"

definition owns_ref :: "nat \<Rightarrow> string \<Rightarrow> registry_entry \<Rightarrow> webhook_registry \<Rightarrow> bool" where
  "owns_ref r key e0 reg =
     (r < next_ref reg \<and>
      (\<forall>k e. e \<in> set (targets_at reg k) \<longrightarrow> entry_ref e = r \<longrightarrow> e = e0 \<and> k = key))"

text \<open>Examples: accounts, targets, the update of Scenario 1, and two registries.\<close>

definition example_account :: "string \<Rightarrow> ResolvedServerChanBotAccount" where
  "example_account a =
     \<lparr> accountId = a, account_name = None, enabled = True, tokenSource = FromConfig,
       config = \<lparr> botToken = Some ''token'', chatId = None, webhookUrl = None,
                  webhookSecret = None, webhookPath = None, dmPolicy = None,
                  allowFrom = None, pollingEnabled = None, pollingIntervalMs = None \<rparr> \<rparr>"

definition example_target :: "string \<Rightarrow> string \<Rightarrow> string option \<Rightarrow> WebhookTarget" where
  "example_target a p s =
     \<lparr> account = example_account a, target_config = JObj [], target_botToken = ''token'',
       path = p, secret = s \<rparr>"

definition update_5 :: ServerChanUpdate where
  "update_5 =
     \<lparr> update_id = Num 5,
       message = \<lparr> message_id = Num 1, chat_id = Some (Num 42), chat = None, msg_from = None,
                   msg_text = ''hi'', date = None \<rparr> \<rparr>"

definition two_tenants :: webhook_registry where
  "two_tenants =
     run_ops [Register (example_target ''a'' ''/hook'' (Some ''alpha'')),
              Register (example_target ''b'' ''hook/'' (Some ''beta''))] empty_registry"

definition one_tenant_left :: webhook_registry where
  "one_tenant_left =
     run_ops [Register (example_target ''a'' ''/hook'' (Some ''alpha'')),
              Register (example_target ''b'' ''hook/'' (Some ''beta'')),
              Unregister \<lparr> closure_key = ''/hook'', closure_target = 0 \<rparr>] empty_registry"

section \<open>Account resolver: the list of account identifiers\<close>

text \<open>\<^verbatim>\<open>Object.keys\<close>, called in the source on objects and arrays only.\<close>

fun object_keys :: "jsvalue \<Rightarrow> string list" where
  "object_keys (JObj kvs) = map fst kvs"
| "object_keys (JArr xs) = map digits [0..<length xs]"
| "object_keys v = []"

text \<open>
  \<^verbatim>\<open>listServerChanBotAccountIds\<close>. The constant \<^verbatim>\<open>DEFAULT_ACCOUNT_ID\<close> comes from the host's
  plugin SDK and is the parameter \<open>default_id\<close> here.
\<close>

definition listServerChanBotAccountIds :: "string \<Rightarrow> jsvalue \<Rightarrow> js_error + string list" where
  "listServerChanBotAccountIds default_id cfg =
     (let section = prop_opt (prop_opt cfg ''channels'') ''serverchan-bot'' in
      if \<not> truthy section then Inr [default_id]
      else
        js_bind (get_prop section ''accounts'') (\<lambda>accounts.
        if \<not> truthy accounts \<or> typeof accounts \<noteq> TObject then Inr [default_id]
        else
          let ids = filter (\<lambda>id. trim id \<noteq> []) (object_keys accounts) in
          if length ids = 0 then Inr [default_id]
          else Inr (if default_id \<notin> set ids then default_id # ids else ids)))"

text \<open>A configuration with the accounts \<^verbatim>\<open>work\<close> and \<^verbatim>\<open>default\<close>, in this order.\<close>

definition cfg_work_default :: jsvalue where
  "cfg_work_default =
     JObj [(''channels'',
       JObj [(''serverchan-bot'',
         JObj [(''accounts'',
           JObj [(''work'', JObj [(''botToken'', JStr ''token-for-work'')]),
                 (''default'', JObj [(''botToken'', JStr ''token-for-default-account'')])])])])]"

section \<open>Update processor\<close>

text \<open>
  \<^verbatim>\<open>String(v)\<close> of a number. An integer up to \<open>2^53\<close> in magnitude prints its digits.
  Beyond, \<^verbatim>\<open>Number::toString\<close> prints the shortest digits \<open>s\<close>, with \<open>k\<close> digits, such that
  \<open>s * 10^(n - k)\<close> is a decimal of \<open>n\<close> digits whose nearest double is the number (of
  several such \<open>s\<close> the closest, then the even one): followed by zeros when \<open>n\<close> is at
  most 21, and in exponent form otherwise.
\<close>

definition decimal_candidates :: "nat \<Rightarrow> nat \<Rightarrow> (nat \<times> nat) list" where
  "decimal_candidates v k =
     [(s, n). n \<leftarrow> [length (digits v), Suc (length (digits v))],
              s \<leftarrow> [v div 10 ^ (n - k), Suc (v div 10 ^ (n - k))],
              10 ^ (k - 1) \<le> s \<and> s < 10 ^ k \<and>
              round_double (int (s * 10 ^ (n - k))) = Num (int v)]"

definition decimal_distance :: "nat \<Rightarrow> nat \<Rightarrow> nat \<times> nat \<Rightarrow> nat" where
  "decimal_distance v k c = nat \<bar>int (fst c * 10 ^ (snd c - k)) - int v\<bar>"

definition closer :: "nat \<Rightarrow> nat \<Rightarrow> nat \<times> nat \<Rightarrow> nat \<times> nat \<Rightarrow> nat \<times> nat" where
  "closer v k c d =
     (if decimal_distance v k d < decimal_distance v k c then d
      else if decimal_distance v k d = decimal_distance v k c \<and> even (fst d) then d
      else c)"

definition shortest_decimal :: "nat \<Rightarrow> nat \<times> nat" where
  "shortest_decimal v =
     (case find (\<lambda>k. decimal_candidates v k \<noteq> []) [1..<Suc (length (digits v))] of
        None \<Rightarrow> (v, length (digits v))
      | Some k \<Rightarrow>
          foldl (closer v k) (hd (decimal_candidates v k)) (tl (decimal_candidates v k)))"

fun js_String_num :: "jsnum \<Rightarrow> string" where
  "js_String_num (Num i) =
     (let a = nat \<bar>i\<bar>; sign = (if i < 0 then ''-'' else []) in
      if a \<le> 2 ^ 53 then sign @ digits a
      else
        let s = fst (shortest_decimal a); n = snd (shortest_decimal a);
            k = length (digits s)
        in if n \<le> 21 then sign @ digits s @ replicate (n - k) (CHR ''0'')
           else if k = 1 then sign @ digits s @ ''e+'' @ digits (n - 1)
           else sign @ take 1 (digits s) @ ''.'' @ drop 1 (digits s) @ ''e+''
                @ digits (n - 1))"
| "js_String_num NaN = ''NaN''"
| "js_String_num PosInf = ''Infinity''"
| "js_String_num NegInf = ''-Infinity''"

text \<open>\<^verbatim>\<open>String(v)\<close> of a value; an array prints its elements joined by commas.\<close>

fun js_join :: "string list \<Rightarrow> string" where
  "js_join [] = []"
| "js_join [s] = s"
| "js_join (s # t # ss) = s @ '','' @ js_join (t # ss)"

fun js_String :: "jsvalue \<Rightarrow> string" where
  "js_String JUndefined = ''undefined''"
| "js_String JNull = ''null''"
| "js_String (JBool b) = (if b then ''true'' else ''false'')"
| "js_String (JNum n) = js_String_num n"
| "js_String (JStr s) = s"
| "js_String (JArr xs) =
     js_join (map (\<lambda>v. if v = JUndefined \<or> v = JNull then [] else js_String v) xs)"
| "js_String (JObj kvs) = ''[object Object]''"

text \<open>\<^verbatim>\<open>a ?? b\<close>, and \<^verbatim>\<open>n * 1000\<close>.\<close>

definition nullish_or :: "jsvalue \<Rightarrow> jsvalue \<Rightarrow> jsvalue" where
  "nullish_or a b = (if nullish a then b else a)"

fun times_1000 :: "jsnum \<Rightarrow> jsnum" where
  "times_1000 (Num i) = round_double (i * 1000)"
| "times_1000 n = n"

text \<open>The message context handed to the host's reply dispatcher.\<close>

record MsgContext =
  Provider :: string
  Surface :: string
  Channel :: string
  From :: string
  To :: string
  Body :: string
  RawBody :: string
  BodyForCommands :: string
  BodyForAgent :: string
  ChatType :: string
  AccountId :: string
  MessageSid :: string
  MessageSidFull :: string
  SessionKey :: string
  SenderId :: string
  Timestamp :: jsnum

text \<open>
  What the polling loop and the update processor do to the outside, in order: the
  \<^verbatim>\<open>getUpdates\<close> request with its time-out and offset, \<^verbatim>\<open>console.error\<close>, the sleep of
  \<^verbatim>\<open>setTimeout\<close> in milliseconds, the log lines, the status sink, and the call of the reply
  dispatcher with the message context. The error log of a missing chat identifier
  prints the update with \<^verbatim>\<open>JSON.stringify\<close>; the effect carries the account and the update.
\<close>

datatype effect =
    GetUpdates jsnum jsnum
  | ConsoleError string
  | Sleep nat
  | LogInfo string
  | LogErrorMissingChatId string ServerChanUpdate
  | StatusLastInboundAt int
  | DispatchReply MsgContext

definition updateChatId :: "ServerChanUpdate \<Rightarrow> jsvalue" where
  "updateChatId update =
     nullish_or
       (nullish_or
          (case chat (message update) of None \<Rightarrow> JUndefined | Some c \<Rightarrow> prop_opt c ''id'')
          (case chat_id (message update) of None \<Rightarrow> JUndefined | Some n \<Rightarrow> JNum n))
       (case msg_from (message update) of None \<Rightarrow> JUndefined | Some f \<Rightarrow> prop_opt f ''id'')"

text \<open>
  \<^verbatim>\<open>processServerChanBotUpdate\<close> up to the call of the dispatcher, which is the host's; the
  call stands in a \<^verbatim>\<open>try\<close> whose \<^verbatim>\<open>catch\<close> logs, so the function does not throw. \<open>now\<close> is
  \<^verbatim>\<open>Date.now()\<close>.
\<close>

definition processServerChanBotUpdate ::
  "ResolvedServerChanBotAccount \<Rightarrow> int \<Rightarrow> ServerChanUpdate \<Rightarrow> effect list" where
  "processServerChanBotUpdate acct now update =
     (if updateChatId update = JUndefined \<or> updateChatId update = JNull
      then [LogErrorMissingChatId (accountId acct) update]
      else
        let chatId = js_String (updateChatId update);
            text = (if msg_text (message update) \<noteq> [] then msg_text (message update) else []);
            messageId = js_String_num (message_id (message update))
        in [LogInfo (''['' @ accountId acct @ ''] received message from '' @ chatId @ '': ''
                     @ take 50 text @ ''...''),
            StatusLastInboundAt now,
            DispatchReply
              \<lparr> Provider = ''serverchan-bot'', Surface = ''serverchan-bot'',
                Channel = ''serverchan-bot'', From = chatId, To = chatId, Body = text,
                RawBody = text, BodyForCommands = text, BodyForAgent = text,
                ChatType = ''direct'', AccountId = accountId acct, MessageSid = messageId,
                MessageSidFull = ''serverchan-bot:'' @ messageId,
                SessionKey = ''serverchan-bot:'' @ chatId, SenderId = chatId,
                Timestamp =
                  (case date (message update) of
                     None \<Rightarrow> Num now
                   | Some d \<Rightarrow> if truthy (JNum d) then times_1000 d else Num now) \<rparr>])"

section \<open>Polling loop\<close>

text \<open>
  \<^verbatim>\<open>ServerChanUpdatesResponse\<close>, and what the \<^verbatim>\<open>fetch\<close> of one \<^verbatim>\<open>getUpdates\<close> call does: it
  throws (a network error), or it answers with a status, a status text and a body, whose
  \<^verbatim>\<open>response.json()\<close> throws or yields a value that the client takes at its declared
  type.
\<close>

record ServerChanUpdatesResponse =
  ok :: bool
  result :: "ServerChanUpdate list"
  error :: "string option"

datatype fetch_outcome =
    FetchThrows string
  | FetchResponse nat string "string + ServerChanUpdatesResponse"

text \<open>
  \<^verbatim>\<open>serverChanBotGetUpdates\<close>: \<open>Inl\<close> is the exception it lets through; \<^verbatim>\<open>response.ok\<close>
  holds for the statuses 200 to 299.
\<close>

definition serverChanBotGetUpdates :: "fetch_outcome \<Rightarrow> string + ServerChanUpdatesResponse" where
  "serverChanBotGetUpdates outcome =
     (case outcome of
        FetchThrows err \<Rightarrow> Inl err
      | FetchResponse status statusText body \<Rightarrow>
          if \<not> (200 \<le> status \<and> status \<le> 299)
          then Inr \<lparr> ok = False, result = [],
                     error = Some (''HTTP '' @ digits status @ '': '' @ statusText) \<rparr>
          else body)"

text \<open>\<^verbatim>\<open>n + 1\<close>\<close>

fun plus_one :: "jsnum \<Rightarrow> jsnum" where
  "plus_one (Num i) = round_double (i + 1)"
| "plus_one n = n"

text \<open>
  The state of \<^verbatim>\<open>monitorServerChanBotPolling\<close>: the variable \<^verbatim>\<open>offset\<close> and the effects so
  far. \<open>onUpdate\<close> yields the effects of the callback and the exception it throws, if
  any.
\<close>

record poll_state =
  offset :: jsnum
  effects :: "effect list"

type_synonym on_update = "ServerChanUpdate \<Rightarrow> effect list \<times> string option"

text \<open>The \<^verbatim>\<open>for\<close> loop over the updates; the result tells the exception that ended it.\<close>

fun for_updates :: "on_update \<Rightarrow> ServerChanUpdate list \<Rightarrow> poll_state \<Rightarrow> string option \<times> poll_state" where
  "for_updates onUpdate [] st = (None, st)"
| "for_updates onUpdate (update # rest) st =
     (let st' = st\<lparr> offset := plus_one (update_id update),
                     effects := effects st @ fst (onUpdate update) \<rparr>
      in case snd (onUpdate update) of
           Some err \<Rightarrow> (Some err, st')
         | None \<Rightarrow> for_updates onUpdate rest st')"

text \<open>The \<^verbatim>\<open>catch\<close> block of the loop.\<close>

definition polling_catch :: "string \<Rightarrow> poll_state \<Rightarrow> poll_state" where
  "polling_catch err st = st\<lparr> effects := effects st @ [ConsoleError err, Sleep 5000] \<rparr>"

text \<open>One iteration of the \<^verbatim>\<open>while\<close> loop: the body, given what the fetch does.\<close>

definition poll_iteration :: "on_update \<Rightarrow> fetch_outcome \<Rightarrow> poll_state \<Rightarrow> poll_state" where
  "poll_iteration onUpdate outcome st =
     (let st1 = st\<lparr> effects := effects st @ [GetUpdates (Num 30) (offset st)] \<rparr> in
      case serverChanBotGetUpdates outcome of
        Inl err \<Rightarrow> polling_catch err st1
      | Inr res \<Rightarrow>
          if ok res \<and> length (result res) > 0
          then (case for_updates onUpdate (result res) st1 of
                  (Some err, st2) \<Rightarrow> polling_catch err st2
                | (None, st2) \<Rightarrow> st2)
          else st1)"

text \<open>
  The loop. Its run is driven by what it meets at each test of the loop condition: the
  abort signal is set, or it is not and the fetch of this iteration has the given
  outcome. After a finite run the loop has returned (it met the signal) or is still
  running.
\<close>

datatype tick = Aborted | Iteration fetch_outcome

datatype loop_status = Returned | Running

fun monitorServerChanBotPolling ::
  "on_update \<Rightarrow> tick list \<Rightarrow> poll_state \<Rightarrow> loop_status \<times> poll_state" where
  "monitorServerChanBotPolling onUpdate [] st = (Running, st)"
| "monitorServerChanBotPolling onUpdate (Aborted # ticks) st = (Returned, st)"
| "monitorServerChanBotPolling onUpdate (Iteration outcome # ticks) st =
     monitorServerChanBotPolling onUpdate ticks (poll_iteration onUpdate outcome st)"

definition initial_poll_state :: poll_state where
  "initial_poll_state = \<lparr> offset = Num 0, effects = [] \<rparr>"

section \<open>Account lifecycle: the choice between polling and webhook\<close>

text \<open>\<^verbatim>\<open>Boolean(field?.trim())\<close>: the field is set and not blank.\<close>

definition configured :: "string option \<Rightarrow> bool" where
  "configured field = (case field of None \<Rightarrow> False | Some s \<Rightarrow> trim s \<noteq> [])"

definition hasWebhookConfig :: "account_config \<Rightarrow> bool" where
  "hasWebhookConfig c =
     (configured (webhookUrl c) \<or> configured (webhookPath c) \<or> configured (webhookSecret c))"

definition shouldPoll :: "account_config \<Rightarrow> bool" where
  "shouldPoll c = (case pollingEnabled c of Some b \<Rightarrow> b | None \<Rightarrow> \<not> hasWebhookConfig c)"

definition wantsWebhook :: "account_config \<Rightarrow> bool" where
  "wantsWebhook c = (case pollingEnabled c of Some b \<Rightarrow> \<not> b | None \<Rightarrow> hasWebhookConfig c)"

text \<open>
  \<^verbatim>\<open>startAccount\<close>, as far as the mode goes. Without a bot token it throws before
  anything else. (The probe that follows cannot fail the start, and the status updates
  do not bear on the mode.) Then it takes the two decisions and acts on them: the result
  tells the target it registers, if any, whether it logs that no webhook path could be
  derived, and whether it goes on to the polling loop.
\<close>

datatype start_error = TokenNotConfigured

record start_mode =
  registers :: "WebhookTarget option"
  logs_no_path :: bool
  starts_polling :: bool

definition startAccount_mode ::
  "(string \<Rightarrow> string option) \<Rightarrow> ResolvedServerChanBotAccount \<Rightarrow> jsvalue
     \<Rightarrow> start_error + start_mode" where
  "startAccount_mode url_pathname acct typedConfig =
     (case botToken (config acct) of
        None \<Rightarrow> Inl TokenNotConfigured
      | Some token \<Rightarrow>
          if token = [] then Inl TokenNotConfigured
          else
            let c = config acct;
                wPath = (if wantsWebhook c
                         then resolveWebhookPath url_pathname (webhookPath c) (webhookUrl c)
                         else None);
                wSecret = (case webhookSecret c of
                             None \<Rightarrow> None
                           | Some s \<Rightarrow> if trim s = [] then None else Some (trim s))
            in Inr \<lparr> registers =
                       (if wantsWebhook c
                        then (case wPath of
                                Some p \<Rightarrow>
                                  Some \<lparr> account = acct, target_config = typedConfig,
                                         target_botToken = token, path = p,
                                         secret = wSecret \<rparr>
                              | None \<Rightarrow> None)
                        else None),
                     logs_no_path = (wantsWebhook c \<and> wPath = None),
                     starts_polling = shouldPoll c \<rparr>)"

text \<open>
  Accounts with a token and: a blank path and a secret; blank webhook fields only; a
  webhook URL and polling forced; nothing but polling switched off; a webhook URL that
  is no URL. And an account without a token.
\<close>

definition account_with :: "(account_config \<Rightarrow> account_config) \<Rightarrow> ResolvedServerChanBotAccount" where
  "account_with f = (example_account ''a'')\<lparr> config := f (config (example_account ''a'')) \<rparr>"

definition account_secret :: ResolvedServerChanBotAccount where
  "account_secret =
     account_with (\<lambda>c. c\<lparr> webhookPath := Some ''  '', webhookSecret := Some '' s3cret '' \<rparr>)"

definition account_blank :: ResolvedServerChanBotAccount where
  "account_blank =
     account_with (\<lambda>c. c\<lparr> webhookUrl := Some '' '', webhookPath := Some [],
                           webhookSecret := Some [CHR 0x09, CHR 0x20] \<rparr>)"

definition account_polling_forced :: ResolvedServerChanBotAccount where
  "account_polling_forced =
     account_with (\<lambda>c. c\<lparr> webhookUrl := Some ''https://example.org/hook'',
                           pollingEnabled := Some True \<rparr>)"

definition account_webhook_forced :: ResolvedServerChanBotAccount where
  "account_webhook_forced = account_with (\<lambda>c. c\<lparr> pollingEnabled := Some False \<rparr>)"

definition account_bad_url :: ResolvedServerChanBotAccount where
  "account_bad_url = account_with (\<lambda>c. c\<lparr> webhookUrl := Some ''not a url'' \<rparr>)"

definition account_no_token :: ResolvedServerChanBotAccount where
  "account_no_token = account_with (\<lambda>c. c\<lparr> botToken := None \<rparr>)"

section \<open>Properties of the payload parser\<close>

lemma get_prop_object:
  "truthy v \<Longrightarrow> typeof v = TObject \<Longrightarrow> get_prop v name = Inr (own_prop v name)"
  by (cases v) (simp_all add: get_prop_def nullish_def)

lemma typeof_number: "(typeof v = TNumber) = (\<exists>n. v = JNum n)"
  by (cases v) simp_all

lemma typeof_string: "(typeof v = TString) = (\<exists>s. v = JStr s)"
  by (cases v) simp_all

lemma parseWebhookPayload_not_object:
  "\<not> is_object body \<Longrightarrow> parseWebhookPayload body = Inr None"
  by (auto simp add: parseWebhookPayload_def is_object_def)

lemma parseWebhookPayload_object:
  assumes "is_object body"
  shows "parseWebhookPayload body =
     (if own_prop body ''ok'' \<noteq> JBool True then Inr None
      else if typeof (own_prop body ''update_id'') \<noteq> TNumber
              \<or> \<not> is_object (own_prop body ''message'') then Inr None
      else if typeof (own_prop (own_prop body ''message'') ''message_id'') \<noteq> TNumber
              \<or> typeof (spec_chat_identifier (own_prop body ''message'')) \<noteq> TNumber
              \<or> typeof (own_prop (own_prop body ''message'') ''text'') \<noteq> TString
           then Inr None
      else Inr (Some
        \<lparr> update_id = the_num (own_prop body ''update_id''),
          message =
            \<lparr> message_id = the_num (own_prop (own_prop body ''message'') ''message_id''),
              chat_id = Some (the_num (spec_chat_identifier (own_prop body ''message''))),
              chat = (if is_object (own_prop (own_prop body ''message'') ''chat'')
                      then Some (own_prop (own_prop body ''message'') ''chat'') else None),
              msg_from = None,
              msg_text = the_str (own_prop (own_prop body ''message'') ''text''),
              date = (if typeof (own_prop (own_prop body ''message'') ''date'') = TNumber
                      then Some (the_num (own_prop (own_prop body ''message'') ''date''))
                      else None) \<rparr> \<rparr>))"
proof -
  from assms have b: "truthy body" "typeof body = TObject"
    by (simp_all add: is_object_def)
  show ?thesis
  proof (cases "is_object (own_prop body ''message'')")
    case False
    then show ?thesis
      using b by (auto simp add: parseWebhookPayload_def get_prop_object is_object_def)
  next
    case True
    then have m: "truthy (own_prop body ''message'')"
      "typeof (own_prop body ''message'') = TObject"
      by (simp_all add: is_object_def)
    show ?thesis
    proof (cases "is_object (own_prop (own_prop body ''message'') ''chat'')")
      case True
      then have c: "truthy (own_prop (own_prop body ''message'') ''chat'')"
        "typeof (own_prop (own_prop body ''message'') ''chat'') = TObject"
        by (simp_all add: is_object_def)
      show ?thesis
        using b m c
        by (simp add: parseWebhookPayload_def get_prop_object is_object_def
            spec_chat_identifier_def)
    next
      case False
      then show ?thesis
        using b m
        by (auto simp add: parseWebhookPayload_def get_prop_object is_object_def
            spec_chat_identifier_def)
    qed
  qed
qed

lemma parseWebhookPayload_rejects:
  "\<not> webhook_body_wellformed body \<Longrightarrow> parseWebhookPayload body = Inr None"
  by (cases "is_object body")
    (auto simp add: parseWebhookPayload_object parseWebhookPayload_not_object
      webhook_body_wellformed_def)

lemma parseWebhookPayload_accepts:
  assumes "webhook_body_wellformed body"
  shows "\<exists>u. parseWebhookPayload body = Inr (Some u) \<and>
     update_id u = the_num (own_prop body ''update_id'') \<and>
     message_id (message u) = the_num (own_prop (own_prop body ''message'') ''message_id'') \<and>
     chat_id (message u) = Some (the_num (spec_chat_identifier (own_prop body ''message''))) \<and>
     msg_text (message u) = the_str (own_prop (own_prop body ''message'') ''text'')"
proof -
  from assms have "is_object body"
    by (simp add: webhook_body_wellformed_def)
  from parseWebhookPayload_object [OF this] assms show ?thesis
    by (simp add: webhook_body_wellformed_def)
qed

text \<open>
  C5, as the specification states it: an Update is returned exactly when, among the other
  conditions, the \<^verbatim>\<open>ok\<close> flag is truthy. The parser compares the flag with the boolean
  \<^verbatim>\<open>true\<close>: a body whose flag is the number 1 meets every condition of the claim and is
  rejected.
\<close>

theorem parseWebhookPayload_truthy_ok_rejected:
  "truthy (own_prop body_with_ok_one ''ok'') \<and>
   typeof (own_prop body_with_ok_one ''update_id'') = TNumber \<and>
   is_object (own_prop body_with_ok_one ''message'') \<and>
   typeof (own_prop (own_prop body_with_ok_one ''message'') ''message_id'') = TNumber \<and>
   typeof (own_prop (own_prop body_with_ok_one ''message'') ''text'') = TString \<and>
   typeof (own_prop (own_prop body_with_ok_one ''message'') ''chat_id'') = TNumber \<and>
   parseWebhookPayload body_with_ok_one = Inr None"
proof -
  have "\<not> webhook_body_wellformed body_with_ok_one"
    by (simp add: webhook_body_wellformed_def body_with_ok_one_def)
  then have "parseWebhookPayload body_with_ok_one = Inr None"
    by (rule parseWebhookPayload_rejects)
  then show ?thesis
    by (simp add: body_with_ok_one_def is_object_def)
qed

text \<open>
  C5, amended: for every input value the parser returns and never throws; it returns an
  Update exactly when the body is an object whose \<^verbatim>\<open>ok\<close> is the boolean \<^verbatim>\<open>true\<close>, whose
  \<^verbatim>\<open>update_id\<close> is a number and whose \<^verbatim>\<open>message\<close> is a sub-object with a numeric
  \<^verbatim>\<open>message_id\<close>, a string \<^verbatim>\<open>text\<close> and a numeric chat identifier, taken from the direct
  \<^verbatim>\<open>chat_id\<close> field when that is a number and else from the nested \<^verbatim>\<open>chat\<close> object's
  \<^verbatim>\<open>id\<close>; the Update carries these values; on any other shape the result is \<^verbatim>\<open>null\<close>.
\<close>

theorem parseWebhookPayload_total_exact:
  "(\<exists>r. parseWebhookPayload body = Inr r) \<and>
   ((\<exists>u. parseWebhookPayload body = Inr (Some u)) = webhook_body_wellformed body) \<and>
   (\<not> webhook_body_wellformed body \<longrightarrow> parseWebhookPayload body = Inr None) \<and>
   (\<forall>u. parseWebhookPayload body = Inr (Some u) \<longrightarrow>
      update_id u = the_num (own_prop body ''update_id'') \<and>
      message_id (message u) = the_num (own_prop (own_prop body ''message'') ''message_id'') \<and>
      chat_id (message u) = Some (the_num (spec_chat_identifier (own_prop body ''message''))) \<and>
      msg_text (message u) = the_str (own_prop (own_prop body ''message'') ''text''))"
proof (cases "webhook_body_wellformed body")
  case True
  from parseWebhookPayload_accepts [OF this] True show ?thesis
    by auto
next
  case False
  from parseWebhookPayload_rejects [OF this] False show ?thesis
    by simp
qed

theorem parseWebhookPayload_total_exact_witness:
  "webhook_body_wellformed body_nested_chat \<and>
   (\<exists>u. parseWebhookPayload body_nested_chat = Inr (Some u) \<and>
        update_id u = Num 5 \<and> message_id (message u) = Num 1 \<and>
        chat_id (message u) = Some (Num 42) \<and> msg_text (message u) = ''hi'') \<and>
   \<not> webhook_body_wellformed (JObj [(''ok'', JBool True)]) \<and>
   parseWebhookPayload (JObj [(''ok'', JBool True)]) = Inr None"
proof -
  have w: "webhook_body_wellformed body_nested_chat"
    by (simp add: webhook_body_wellformed_def body_nested_chat_def is_object_def
        spec_chat_identifier_def)
  have n: "\<not> webhook_body_wellformed (JObj [(''ok'', JBool True)])"
    by (simp add: webhook_body_wellformed_def)
  have v: "the_num (own_prop body_nested_chat ''update_id'') = Num 5"
    "the_num (own_prop (own_prop body_nested_chat ''message'') ''message_id'') = Num 1"
    "the_num (spec_chat_identifier (own_prop body_nested_chat ''message'')) = Num 42"
    "the_str (own_prop (own_prop body_nested_chat ''message'') ''text'') = ''hi''"
    by (simp_all add: body_nested_chat_def spec_chat_identifier_def is_object_def)
  from parseWebhookPayload_total_exact [of body_nested_chat] w
  obtain u where u: "parseWebhookPayload body_nested_chat = Inr (Some u)"
    by auto
  with parseWebhookPayload_total_exact [of body_nested_chat] v
  have "update_id u = Num 5 \<and> message_id (message u) = Num 1 \<and>
        chat_id (message u) = Some (Num 42) \<and> msg_text (message u) = ''hi''"
    by simp
  with u w n parseWebhookPayload_total_exact [of "JObj [(''ok'', JBool True)]"]
  show ?thesis
    by simp
qed

lemma parseWebhookPayload_accepts_fields:
  assumes "map_of body ''ok'' = Some (JBool True)"
    and "map_of body ''update_id'' = Some (JNum uid)"
    and "map_of body ''message'' = Some (JObj msg)"
    and "map_of msg ''message_id'' = Some (JNum mid)"
    and "map_of msg ''text'' = Some (JStr txt)"
    and "map_of msg ''chat_id'' = Some (JNum cid) \<or>
         (map_of msg ''chat_id'' = None \<and> map_of msg ''chat'' = Some (JObj ch) \<and>
          map_of ch ''id'' = Some (JNum cid))"
  shows "\<exists>u. parseWebhookPayload (JObj body) = Inr (Some u) \<and>
     update_id u = uid \<and> message_id (message u) = mid \<and>
     chat_id (message u) = Some cid \<and> msg_text (message u) = txt"
proof -
  from assms(4-6) have c: "spec_chat_identifier (JObj msg) = JNum cid"
    by (auto simp add: spec_chat_identifier_def is_object_def)
  from assms(1-5) c have "webhook_body_wellformed (JObj body)"
    by (simp add: webhook_body_wellformed_def is_object_def)
  from parseWebhookPayload_accepts [OF this] assms(1-5) c show ?thesis
    by simp
qed

lemma JSON_parse_object: "JSON_parse (json_of (JObj kvs)) = JObj (json_members kvs)"
  by simp

lemma json_members_Some:
  "map_of kvs k = Some v \<Longrightarrow> v \<noteq> JUndefined \<Longrightarrow>
   map_of (json_members kvs) k = Some (JSON_parse (json_of v))"
  by (induction kvs) (auto split: if_splits)

lemma json_members_None: "map_of kvs k = None \<Longrightarrow> map_of (json_members kvs) k = None"
  by (induction kvs) (auto split: if_splits)

lemma JSON_roundtrip_not_finite:
  "JSON_parse (json_of (JNum NaN)) = JNull"
  "JSON_parse (json_of (JNum PosInf)) = JNull"
  "JSON_parse (json_of (JNum NegInf)) = JNull"
  by simp_all

lemma parseWebhookPayload_nan_roundtrip:
  "(\<exists>u. parseWebhookPayload body_with_nan = Inr (Some u) \<and> update_id u = NaN) \<and>
   parseWebhookPayload (JSON_parse (json_of body_with_nan)) = Inr None"
proof -
  have "webhook_body_wellformed body_with_nan"
    by (simp add: webhook_body_wellformed_def body_with_nan_def is_object_def
        spec_chat_identifier_def)
  from parseWebhookPayload_accepts [OF this]
  have a: "\<exists>u. parseWebhookPayload body_with_nan = Inr (Some u) \<and> update_id u = NaN"
    by (auto simp add: body_with_nan_def)
  have "\<not> webhook_body_wellformed (JSON_parse (json_of body_with_nan))"
    by (simp add: webhook_body_wellformed_def body_with_nan_def)
  from parseWebhookPayload_rejects [OF this] a show ?thesis
    by simp
qed

text \<open>
  C6: round trip. Take a well-formed update body: \<^verbatim>\<open>ok\<close> set, \<^verbatim>\<open>update_id\<close> a finite number
  and a message with a finite \<^verbatim>\<open>message_id\<close>, a string \<^verbatim>\<open>text\<close> and either a finite
  \<^verbatim>\<open>chat_id\<close> or, without a \<^verbatim>\<open>chat_id\<close>, a \<^verbatim>\<open>chat\<close> object with a finite \<^verbatim>\<open>id\<close>. Its JSON
  serialization exists, and the parser applied to the value that \<^verbatim>\<open>JSON.parse\<close> builds
  from it (as the webhook handler does) returns an Update with the same \<^verbatim>\<open>update_id\<close>,
  \<^verbatim>\<open>message_id\<close>, chat identifier and \<^verbatim>\<open>text\<close>.
\<close>

theorem parseWebhookPayload_json_roundtrip:
  assumes "map_of body ''ok'' = Some (JBool True)"
    and "map_of body ''update_id'' = Some (JNum (Num uid))"
    and "map_of body ''message'' = Some (JObj msg)"
    and "map_of msg ''message_id'' = Some (JNum (Num mid))"
    and "map_of msg ''text'' = Some (JStr txt)"
    and "map_of msg ''chat_id'' = Some (JNum (Num cid)) \<or>
         (map_of msg ''chat_id'' = None \<and> map_of msg ''chat'' = Some (JObj ch) \<and>
          map_of ch ''id'' = Some (JNum (Num cid)))"
  shows "\<exists>doc u. JSON_stringify (JObj body) = Some doc \<and>
     parseWebhookPayload (JSON_parse doc) = Inr (Some u) \<and>
     update_id u = Num uid \<and> message_id (message u) = Num mid \<and>
     chat_id (message u) = Some (Num cid) \<and> msg_text (message u) = txt"
proof -
  have 1: "map_of (json_members body) ''ok'' = Some (JBool True)"
    using json_members_Some [OF assms(1)] by simp
  have 2: "map_of (json_members body) ''update_id'' = Some (JNum (Num uid))"
    using json_members_Some [OF assms(2)] by simp
  have 3: "map_of (json_members body) ''message'' = Some (JObj (json_members msg))"
    using json_members_Some [OF assms(3)] by simp
  have 4: "map_of (json_members msg) ''message_id'' = Some (JNum (Num mid))"
    using json_members_Some [OF assms(4)] by simp
  have 5: "map_of (json_members msg) ''text'' = Some (JStr txt)"
    using json_members_Some [OF assms(5)] by simp
  from assms(6)
  have 6: "map_of (json_members msg) ''chat_id'' = Some (JNum (Num cid)) \<or>
     (map_of (json_members msg) ''chat_id'' = None \<and>
      map_of (json_members msg) ''chat'' = Some (JObj (json_members ch)) \<and>
      map_of (json_members ch) ''id'' = Some (JNum (Num cid)))"
  proof
    assume "map_of msg ''chat_id'' = Some (JNum (Num cid))"
    from json_members_Some [OF this] show ?thesis
      by simp
  next
    assume a: "map_of msg ''chat_id'' = None \<and> map_of msg ''chat'' = Some (JObj ch) \<and>
      map_of ch ''id'' = Some (JNum (Num cid))"
    then have "map_of msg ''chat_id'' = None"
      by simp
    then have "map_of (json_members msg) ''chat_id'' = None"
      by (rule json_members_None)
    moreover from a have "map_of (json_members msg) ''chat'' = Some (JObj (json_members ch))"
      using json_members_Some [of msg "''chat''" "JObj ch"] by simp
    moreover from a have "map_of (json_members ch) ''id'' = Some (JNum (Num cid))"
      using json_members_Some [of ch "''id''" "JNum (Num cid)"] by simp
    ultimately show ?thesis
      by simp
  qed
  from parseWebhookPayload_accepts_fields [OF 1 2 3 4 5 6]
  obtain u where "parseWebhookPayload (JObj (json_members body)) = Inr (Some u)"
    and "update_id u = Num uid" and "message_id (message u) = Num mid"
    and "chat_id (message u) = Some (Num cid)" and "msg_text (message u) = txt"
    by blast
  then show ?thesis
    by (simp add: JSON_stringify_def)
qed

theorem parseWebhookPayload_json_roundtrip_witness:
  "JSON_stringify body_nested_chat =
     Some (JsonObject [(''ok'', JsonBool True), (''update_id'', JsonNumber 5),
       (''message'', JsonObject [(''message_id'', JsonNumber 1),
                                 (''chat'', JsonObject [(''id'', JsonNumber 42)]),
                                 (''text'', JsonString ''hi'')])]) \<and>
   (\<exists>u. parseWebhookPayload (JSON_parse (json_of body_nested_chat)) = Inr (Some u) \<and>
        update_id u = Num 5 \<and> message_id (message u) = Num 1 \<and>
        chat_id (message u) = Some (Num 42) \<and> msg_text (message u) = ''hi'') \<and>
   (\<exists>u. parseWebhookPayload (JSON_parse (json_of body_chat_id)) = Inr (Some u) \<and>
        update_id u = Num 5 \<and> message_id (message u) = Num 1 \<and>
        chat_id (message u) = Some (Num 42) \<and> msg_text (message u) = ''hi'')"
  using parseWebhookPayload_json_roundtrip
    [of "[(''ok'', JBool True), (''update_id'', JNum (Num 5)),
          (''message'', JObj [(''message_id'', JNum (Num 1)),
                              (''chat'', JObj [(''id'', JNum (Num 42))]),
                              (''text'', JStr ''hi'')])]"
        5
        "[(''message_id'', JNum (Num 1)), (''chat'', JObj [(''id'', JNum (Num 42))]),
          (''text'', JStr ''hi'')]"
        1 "''hi''" 42 "[(''id'', JNum (Num 42))]"]
    parseWebhookPayload_json_roundtrip
    [of "[(''ok'', JBool True), (''update_id'', JNum (Num 5)),
          (''message'', JObj [(''message_id'', JNum (Num 1)), (''chat_id'', JNum (Num 42)),
                              (''text'', JStr ''hi'')])]"
        5
        "[(''message_id'', JNum (Num 1)), (''chat_id'', JNum (Num 42)), (''text'', JStr ''hi'')]"
        1 "''hi''" 42 "[]"]
  by (simp add: body_nested_chat_def body_chat_id_def JSON_stringify_def)

section \<open>Properties of the secret check\<close>

text \<open>
  C4, as the specification states it: the header is found under any casing of its name.
  The check reads two spellings only; a request whose header is spelled in capitals and
  carries the expected secret is refused.
\<close>

theorem verifyWebhookSecret_upper_case_refused:
  "map ascii_lower ''X-SC3BOT-WEBHOOK-SECRET'' = ''x-sc3bot-webhook-secret'' \<and>
   \<not> verifyWebhookSecret [''X-SC3BOT-WEBHOOK-SECRET'' \<mapsto> HStr ''s3cret''] ''s3cret''"
  by (simp add: ascii_lower_def verifyWebhookSecret_def)

text \<open>
  C4, amended: the check looks the header up under two spellings, the lower-case
  \<^verbatim>\<open>x-sc3bot-webhook-secret\<close> first and \<^verbatim>\<open>X-Sc3Bot-Webhook-Secret\<close> when the first is not
  bound, and no other binding of the headers matters. Of a list it takes the first
  element, and an empty list is as good as no header. The result is true exactly when
  the value found is the expected secret, by equality of strings, and false when the
  header is bound under neither spelling.
\<close>

theorem verifyWebhookSecret_two_spellings:
  "(hdrs ''x-sc3bot-webhook-secret'' = Some (HStr s) \<longrightarrow>
      verifyWebhookSecret hdrs expected = (s = expected)) \<and>
   (hdrs ''x-sc3bot-webhook-secret'' = Some (HArr (s # ss)) \<longrightarrow>
      verifyWebhookSecret hdrs expected = (s = expected)) \<and>
   (hdrs ''x-sc3bot-webhook-secret'' = Some (HArr []) \<longrightarrow>
      \<not> verifyWebhookSecret hdrs expected) \<and>
   (hdrs ''x-sc3bot-webhook-secret'' = None \<longrightarrow>
      hdrs ''X-Sc3Bot-Webhook-Secret'' = Some (HStr s) \<longrightarrow>
      verifyWebhookSecret hdrs expected = (s = expected)) \<and>
   (hdrs ''x-sc3bot-webhook-secret'' = None \<longrightarrow>
      hdrs ''X-Sc3Bot-Webhook-Secret'' = Some (HArr (s # ss)) \<longrightarrow>
      verifyWebhookSecret hdrs expected = (s = expected)) \<and>
   (hdrs ''x-sc3bot-webhook-secret'' = None \<longrightarrow>
      hdrs ''X-Sc3Bot-Webhook-Secret'' = Some (HArr []) \<longrightarrow>
      \<not> verifyWebhookSecret hdrs expected) \<and>
   (hdrs ''x-sc3bot-webhook-secret'' = None \<longrightarrow>
      hdrs ''X-Sc3Bot-Webhook-Secret'' = None \<longrightarrow>
      \<not> verifyWebhookSecret hdrs expected) \<and>
   (hdrs ''x-sc3bot-webhook-secret'' = hdrs' ''x-sc3bot-webhook-secret'' \<longrightarrow>
      hdrs ''X-Sc3Bot-Webhook-Secret'' = hdrs' ''X-Sc3Bot-Webhook-Secret'' \<longrightarrow>
      verifyWebhookSecret hdrs expected = verifyWebhookSecret hdrs' expected)"
  by (simp add: verifyWebhookSecret_def split: option.splits)

theorem verifyWebhookSecret_two_spellings_witness:
  "verifyWebhookSecret [''x-sc3bot-webhook-secret'' \<mapsto> HStr ''s3cret''] ''s3cret'' \<and>
   \<not> verifyWebhookSecret [''x-sc3bot-webhook-secret'' \<mapsto> HStr ''wrong''] ''s3cret'' \<and>
   verifyWebhookSecret [''x-sc3bot-webhook-secret'' \<mapsto> HArr [''s3cret'', ''other'']] ''s3cret'' \<and>
   \<not> verifyWebhookSecret [''x-sc3bot-webhook-secret'' \<mapsto> HArr []] [] \<and>
   verifyWebhookSecret [''X-Sc3Bot-Webhook-Secret'' \<mapsto> HStr ''s3cret''] ''s3cret'' \<and>
   verifyWebhookSecret [''X-Sc3Bot-Webhook-Secret'' \<mapsto> HArr [''s3cret'']] ''s3cret'' \<and>
   \<not> verifyWebhookSecret [''X-Sc3Bot-Webhook-Secret'' \<mapsto> HArr [''other'', ''s3cret'']] ''s3cret'' \<and>
   \<not> verifyWebhookSecret [''X-Sc3Bot-Webhook-Secret'' \<mapsto> HArr []] [] \<and>
   \<not> verifyWebhookSecret
       [''x-sc3bot-webhook-secret'' \<mapsto> HStr ''wrong'',
        ''X-Sc3Bot-Webhook-Secret'' \<mapsto> HStr ''s3cret''] ''s3cret'' \<and>
   \<not> verifyWebhookSecret Map.empty ''s3cret''"
  using
    verifyWebhookSecret_two_spellings
      [of "[''x-sc3bot-webhook-secret'' \<mapsto> HStr ''s3cret'']" "''s3cret''" "''s3cret''"]
    verifyWebhookSecret_two_spellings
      [of "[''x-sc3bot-webhook-secret'' \<mapsto> HStr ''wrong'']" "''wrong''" "''s3cret''"]
    verifyWebhookSecret_two_spellings
      [of "[''x-sc3bot-webhook-secret'' \<mapsto> HArr [''s3cret'', ''other'']]" "''s3cret''"
          "''s3cret''" "[''other'']"]
    verifyWebhookSecret_two_spellings [of "[''x-sc3bot-webhook-secret'' \<mapsto> HArr []]" _ "[]"]
    verifyWebhookSecret_two_spellings
      [of "[''X-Sc3Bot-Webhook-Secret'' \<mapsto> HStr ''s3cret'']" "''s3cret''" "''s3cret''"]
    verifyWebhookSecret_two_spellings
      [of "[''X-Sc3Bot-Webhook-Secret'' \<mapsto> HArr [''s3cret'']]" "''s3cret''" "''s3cret''" "[]"]
    verifyWebhookSecret_two_spellings
      [of "[''X-Sc3Bot-Webhook-Secret'' \<mapsto> HArr [''other'', ''s3cret'']]" "''other''"
          "''s3cret''" "[''s3cret'']"]
    verifyWebhookSecret_two_spellings [of "[''X-Sc3Bot-Webhook-Secret'' \<mapsto> HArr []]" _ "[]"]
    verifyWebhookSecret_two_spellings
      [of "[''x-sc3bot-webhook-secret'' \<mapsto> HStr ''wrong'',
            ''X-Sc3Bot-Webhook-Secret'' \<mapsto> HStr ''s3cret'']" "''wrong''" "''s3cret''"]
    verifyWebhookSecret_two_spellings [of Map.empty _ "''s3cret''"]
  by simp

section \<open>Properties of the webhook router\<close>

lemma registry_ok_empty: "registry_ok empty_registry"
  by (simp add: registry_ok_def empty_registry_def)

lemma refs_fresh_empty: "refs_fresh empty_registry"
  by (simp add: refs_fresh_def empty_registry_def)

lemma in_targets_atD:
  "e \<in> set (targets_at reg k) \<Longrightarrow> \<exists>ts. webhookTargets reg k = Some ts \<and> e \<in> set ts"
  by (cases "webhookTargets reg k") (simp_all add: targets_at_def)

lemma targets_at_Some: "webhookTargets reg k = Some ts \<Longrightarrow> targets_at reg k = ts"
  by (simp add: targets_at_def)

lemma targets_at_ok:
  "registry_ok reg \<Longrightarrow> e \<in> set (targets_at reg k) \<Longrightarrow> path (entry_target e) = k"
  by (auto simp add: registry_ok_def dest!: in_targets_atD)

lemma targets_at_fresh:
  "refs_fresh reg \<Longrightarrow> e \<in> set (targets_at reg k) \<Longrightarrow> entry_ref e < next_ref reg"
  by (auto simp add: refs_fresh_def dest!: in_targets_atD)

lemma registry_ok_register:
  assumes "registry_ok reg"
  shows "registry_ok (snd (registerServerChanBotWebhookTarget target reg))"
  unfolding registry_ok_def
proof (intro allI impI)
  fix k ts
  assume h: "webhookTargets (snd (registerServerChanBotWebhookTarget target reg)) k = Some ts"
  show "ts \<noteq> [] \<and> (\<forall>e\<in>set ts. path (entry_target e) = k) \<and> (\<exists>raw. k = normalizeWebhookPath raw)"
  proof (cases "k = normalizeWebhookPath (path target)")
    case True
    with h have "ts = targets_at reg k @
        [\<lparr> entry_ref = next_ref reg, entry_target = target\<lparr>path := k\<rparr> \<rparr>]"
      by (simp add: registerServerChanBotWebhookTarget_def Let_def)
    with True targets_at_ok [OF assms] show ?thesis
      by auto
  next
    case False
    with h have "webhookTargets reg k = Some ts"
      by (simp add: registerServerChanBotWebhookTarget_def Let_def)
    with assms show ?thesis
      by (simp add: registry_ok_def)
  qed
qed

lemma registry_ok_unregister:
  assumes "registry_ok reg"
  shows "registry_ok (run_unregister un reg)"
  unfolding registry_ok_def
proof (intro allI impI)
  fix k ts
  assume h: "webhookTargets (run_unregister un reg) k = Some ts"
  show "ts \<noteq> [] \<and> (\<forall>e\<in>set ts. path (entry_target e) = k) \<and> (\<exists>raw. k = normalizeWebhookPath raw)"
  proof (cases "k = closure_key un")
    case True
    with h have ts: "ts = filter (\<lambda>entry. entry_ref entry \<noteq> closure_target un) (targets_at reg k)"
      and ne: "ts \<noteq> []"
      by (auto simp add: run_unregister_def Let_def split: if_splits)
    from ne ts have "targets_at reg k \<noteq> []"
      by auto
    then obtain ts0 where "webhookTargets reg k = Some ts0"
      by (auto simp add: targets_at_def split: option.splits)
    with assms have "\<exists>raw. k = normalizeWebhookPath raw"
      by (simp add: registry_ok_def)
    with ne ts targets_at_ok [OF assms] show ?thesis
      by auto
  next
    case False
    with h have "webhookTargets reg k = Some ts"
      by (simp add: run_unregister_def Let_def split: if_splits)
    with assms show ?thesis
      by (simp add: registry_ok_def)
  qed
qed

lemma registry_ok_run_ops: "registry_ok reg \<Longrightarrow> registry_ok (run_ops ops reg)"
proof (induction ops arbitrary: reg)
  case Nil
  then show ?case by (simp add: run_ops_def)
next
  case (Cons op ops)
  have "registry_ok (apply_op reg op)"
    using Cons.prems by (cases op) (simp_all add: registry_ok_register registry_ok_unregister)
  from Cons.IH [OF this] show ?case
    by (simp add: run_ops_def)
qed

lemma refs_fresh_register:
  assumes "refs_fresh reg"
  shows "refs_fresh (snd (registerServerChanBotWebhookTarget target reg))"
  unfolding refs_fresh_def
proof (intro allI impI)
  fix k ts e
  assume h: "webhookTargets (snd (registerServerChanBotWebhookTarget target reg)) k = Some ts"
    and e: "e \<in> set ts"
  have n: "next_ref (snd (registerServerChanBotWebhookTarget target reg)) = Suc (next_ref reg)"
    by (simp add: registerServerChanBotWebhookTarget_def Let_def)
  have "entry_ref e < Suc (next_ref reg)"
  proof (cases "k = normalizeWebhookPath (path target)")
    case True
    with h have "ts = targets_at reg k @
        [\<lparr> entry_ref = next_ref reg, entry_target = target\<lparr>path := k\<rparr> \<rparr>]"
      by (simp add: registerServerChanBotWebhookTarget_def Let_def)
    with e targets_at_fresh [OF assms, of e k] show ?thesis
      by auto
  next
    case False
    with h have "webhookTargets reg k = Some ts"
      by (simp add: registerServerChanBotWebhookTarget_def Let_def)
    with assms e have "entry_ref e < next_ref reg"
      by (auto simp add: refs_fresh_def)
    then show ?thesis by simp
  qed
  with n show "entry_ref e < next_ref (snd (registerServerChanBotWebhookTarget target reg))"
    by simp
qed

lemma refs_fresh_unregister:
  assumes "refs_fresh reg"
  shows "refs_fresh (run_unregister un reg)"
  unfolding refs_fresh_def
proof (intro allI impI)
  fix k ts e
  assume h: "webhookTargets (run_unregister un reg) k = Some ts" and e: "e \<in> set ts"
  have n: "next_ref (run_unregister un reg) = next_ref reg"
    by (simp add: run_unregister_def Let_def)
  have "entry_ref e < next_ref reg"
  proof (cases "k = closure_key un")
    case True
    with h have "ts = filter (\<lambda>entry. entry_ref entry \<noteq> closure_target un) (targets_at reg k)"
      by (auto simp add: run_unregister_def Let_def split: if_splits)
    with e have "e \<in> set (targets_at reg k)"
      by simp
    then show ?thesis
      by (rule targets_at_fresh [OF assms])
  next
    case False
    with h have "webhookTargets reg k = Some ts"
      by (simp add: run_unregister_def Let_def split: if_splits)
    with assms e show ?thesis
      by (auto simp add: refs_fresh_def)
  qed
  with n show "entry_ref e < next_ref (run_unregister un reg)"
    by simp
qed

lemma refs_fresh_run_ops: "refs_fresh reg \<Longrightarrow> refs_fresh (run_ops ops reg)"
proof (induction ops arbitrary: reg)
  case Nil
  then show ?case by (simp add: run_ops_def)
next
  case (Cons op ops)
  have "refs_fresh (apply_op reg op)"
    using Cons.prems by (cases op) (simp_all add: refs_fresh_register refs_fresh_unregister)
  from Cons.IH [OF this] show ?case
    by (simp add: run_ops_def)
qed

text \<open>
  C10: after any sequence of registrations and unregistrations, starting from the empty
  registry, every path key present in the registry maps to a non-empty list of targets,
  every stored target's path is the key it is stored under, and that key is a normalized
  path. (The unregistrations range over all closures, also over ones no registration
  returned.)
\<close>

theorem registry_invariant:
  "webhookTargets (run_ops ops empty_registry) k = Some ts \<Longrightarrow>
   ts \<noteq> [] \<and> (\<forall>e\<in>set ts. path (entry_target e) = k) \<and> (\<exists>raw. k = normalizeWebhookPath raw)"
  using registry_ok_run_ops [OF registry_ok_empty, of ops]
  by (simp add: registry_ok_def)

lemma normalizeWebhookPath_examples:
  "normalizeWebhookPath ''/hook'' = ''/hook''"
  "normalizeWebhookPath ''hook/'' = ''/hook''"
  by (simp_all add: normalizeWebhookPath_def trim_def js_whitespace_def)

lemma two_tenants_hook:
  "webhookTargets two_tenants ''/hook'' =
     Some [\<lparr> entry_ref = 0, entry_target = example_target ''a'' ''/hook'' (Some ''alpha'') \<rparr>,
           \<lparr> entry_ref = 1, entry_target = example_target ''b'' ''/hook'' (Some ''beta'') \<rparr>]"
  by (simp add: two_tenants_def run_ops_def registerServerChanBotWebhookTarget_def
      empty_registry_def targets_at_def normalizeWebhookPath_examples example_target_def
      Let_def)

lemma parse_body_chat_id: "parseWebhookPayload body_chat_id = Inr (Some update_5)"
  by (simp add: parseWebhookPayload_def body_chat_id_def update_5_def get_prop_def nullish_def)

lemma targets_at_unregister:
  "targets_at (run_unregister un reg) k =
     (if k = closure_key un
      then filter (\<lambda>entry. entry_ref entry \<noteq> closure_target un) (targets_at reg k)
      else targets_at reg k)"
  by (simp add: run_unregister_def Let_def targets_at_def)

lemma run_unregister_idem: "run_unregister un (run_unregister un reg) = run_unregister un reg"
proof (cases "filter (\<lambda>entry. entry_ref entry \<noteq> closure_target un)
                (targets_at reg (closure_key un)) = []")
  case True
  then show ?thesis
    by (simp add: run_unregister_def targets_at_def)
next
  case False
  then show ?thesis
    by (simp add: run_unregister_def targets_at_def)
qed

text \<open>
  C1: when the request's path has exactly two registered targets, with secrets that are
  non-empty and differ, and the request's secret header equals the secret of one of
  them, the selection returns that target, which is not the other one, and a \<^verbatim>\<open>POST\<close>
  with a well-formed body is answered 200 with the update processor started for that
  target (its account, configuration and token).
\<close>

theorem select_by_secret:
  assumes "webhookTargets reg (normalizeWebhookPath (req_pathname req)) = Some [t1, t2]"
    and "secret (entry_target t1) = Some s1" and "secret (entry_target t2) = Some s2"
    and "s1 \<noteq> []" and "s2 \<noteq> []" and "s1 \<noteq> s2"
    and "req_headers req ''x-sc3bot-webhook-secret'' = Some (HStr s)"
  shows "(s = s1 \<longrightarrow>
            selectWebhookTarget [t1, t2] (req_headers req) = Some t1 \<and> t1 \<noteq> t2 \<and>
            (req_method req = ''POST'' \<longrightarrow> req_body req = Inr v \<longrightarrow>
             parseWebhookPayload v = Inr (Some u) \<longrightarrow>
             handleServerChanBotWebhookRequest reg req = Handled 200 None ''ok'' (Some (t1, u)))) \<and>
         (s = s2 \<longrightarrow>
            selectWebhookTarget [t1, t2] (req_headers req) = Some t2 \<and> t2 \<noteq> t1 \<and>
            (req_method req = ''POST'' \<longrightarrow> req_body req = Inr v \<longrightarrow>
             parseWebhookPayload v = Inr (Some u) \<longrightarrow>
             handleServerChanBotWebhookRequest reg req = Handled 200 None ''ok'' (Some (t2, u))))"
proof -
  from assms(7) have v: "\<And>e. verifyWebhookSecret (req_headers req) e = (s = e)"
    by (simp add: verifyWebhookSecret_def)
  from assms(2,3,6) have d: "t1 \<noteq> t2"
    by auto
  have a: "s = s1 \<Longrightarrow> selectWebhookTarget [t1, t2] (req_headers req) = Some t1"
    using assms(2-6) by (simp add: selectWebhookTarget_def secret_matches_def v)
  have b: "s = s2 \<Longrightarrow> selectWebhookTarget [t1, t2] (req_headers req) = Some t2"
    using assms(2-6) by (auto simp add: selectWebhookTarget_def secret_matches_def v)
  show ?thesis
    using a b d assms(1) by (auto simp add: handleServerChanBotWebhookRequest_def)
qed

theorem select_by_secret_witness:
  "handleServerChanBotWebhookRequest two_tenants
     \<lparr> req_pathname = ''/hook'', req_method = ''POST'',
       req_headers = [''x-sc3bot-webhook-secret'' \<mapsto> HStr ''beta''],
       req_body = Inr body_chat_id \<rparr> =
   Handled 200 None ''ok''
     (Some (\<lparr> entry_ref = 1, entry_target = example_target ''b'' ''/hook'' (Some ''beta'') \<rparr>,
            update_5))"
  using select_by_secret
    [of two_tenants
        "\<lparr> req_pathname = ''/hook'', req_method = ''POST'',
           req_headers = [''x-sc3bot-webhook-secret'' \<mapsto> HStr ''beta''],
           req_body = Inr body_chat_id \<rparr>"
        "\<lparr> entry_ref = 0, entry_target = example_target ''a'' ''/hook'' (Some ''alpha'') \<rparr>"
        "\<lparr> entry_ref = 1, entry_target = example_target ''b'' ''/hook'' (Some ''beta'') \<rparr>"
        "''alpha''" "''beta''" "''beta''" body_chat_id update_5]
  by (simp add: two_tenants_hook normalizeWebhookPath_examples parse_body_chat_id
      example_target_def)

lemma targets_at_register:
  "targets_at (snd (registerServerChanBotWebhookTarget target reg)) k =
     (if k = normalizeWebhookPath (path target)
      then targets_at reg k @
           [\<lparr> entry_ref = next_ref reg, entry_target = target\<lparr>path := k\<rparr> \<rparr>]
      else targets_at reg k)"
  by (simp add: registerServerChanBotWebhookTarget_def Let_def targets_at_def)

lemma next_ref_register:
  "next_ref (snd (registerServerChanBotWebhookTarget target reg)) = Suc (next_ref reg)"
  by (simp add: registerServerChanBotWebhookTarget_def Let_def)

lemma next_ref_unregister: "next_ref (run_unregister un reg) = next_ref reg"
  by (simp add: run_unregister_def Let_def)

lemma owns_ref_apply_op:
  assumes "owns_ref r key e0 reg"
  shows "owns_ref r key e0 (apply_op reg op)"
proof (cases op)
  case (Register target)
  with assms show ?thesis
    by (auto simp add: owns_ref_def targets_at_register next_ref_register split: if_splits)
next
  case (Unregister un)
  with assms show ?thesis
    by (auto simp add: owns_ref_def targets_at_unregister next_ref_unregister split: if_splits)
qed

lemma owns_ref_run_ops: "owns_ref r key e0 reg \<Longrightarrow> owns_ref r key e0 (run_ops ops reg)"
proof (induction ops arbitrary: reg)
  case Nil
  then show ?case by (simp add: run_ops_def)
next
  case (Cons op ops)
  from Cons.IH [OF owns_ref_apply_op [OF Cons.prems]] show ?case
    by (simp add: run_ops_def)
qed

lemma register_owns_ref:
  assumes "refs_fresh reg"
  shows "owns_ref (next_ref reg) (normalizeWebhookPath (path target))
           \<lparr> entry_ref = next_ref reg,
             entry_target = target\<lparr>path := normalizeWebhookPath (path target)\<rparr> \<rparr>
           (snd (registerServerChanBotWebhookTarget target reg))"
  using targets_at_fresh [OF assms]
  by (fastforce simp add: owns_ref_def targets_at_register next_ref_register split: if_splits)

lemma unregister_removes_entry:
  assumes "owns_ref (closure_target un) (closure_key un) e0 reg"
    and "entry_ref e0 = closure_target un"
  shows "targets_at (run_unregister un reg) k = filter (\<lambda>e. e \<noteq> e0) (targets_at reg k)"
proof (cases "k = closure_key un")
  case True
  have "filter (\<lambda>e. entry_ref e \<noteq> closure_target un) (targets_at reg k) =
        filter (\<lambda>e. e \<noteq> e0) (targets_at reg k)"
    using assms by (intro filter_cong) (auto simp add: owns_ref_def)
  with True show ?thesis
    by (simp add: targets_at_unregister)
next
  case False
  with assms have "e0 \<notin> set (targets_at reg k)"
    by (auto simp add: owns_ref_def)
  then have "filter (\<lambda>e. e \<noteq> e0) (targets_at reg k) = targets_at reg k"
    by (intro filter_True) auto
  with False show ?thesis
    by (simp add: targets_at_unregister)
qed

lemma register_then_unregister:
  assumes "registry_ok reg" and "refs_fresh reg"
  shows "webhookTargets (run_unregister (fst (registerServerChanBotWebhookTarget target reg))
            (snd (registerServerChanBotWebhookTarget target reg))) = webhookTargets reg"
proof
  fix k
  let ?key = "normalizeWebhookPath (path target)"
  have f: "filter (\<lambda>e. entry_ref e \<noteq> next_ref reg) (targets_at reg ?key) = targets_at reg ?key"
  proof (intro filter_True ballI)
    fix e
    assume "e \<in> set (targets_at reg ?key)"
    from targets_at_fresh [OF assms(2) this] show "entry_ref e \<noteq> next_ref reg"
      by simp
  qed
  show "webhookTargets (run_unregister (fst (registerServerChanBotWebhookTarget target reg))
            (snd (registerServerChanBotWebhookTarget target reg))) k = webhookTargets reg k"
  proof (cases "webhookTargets reg ?key")
    case None
    then show ?thesis
      by (simp add: run_unregister_def registerServerChanBotWebhookTarget_def Let_def
          targets_at_def)
  next
    case (Some ts)
    with assms(1) have "ts \<noteq> []"
      by (simp add: registry_ok_def)
    with Some f show ?thesis
      by (simp add: run_unregister_def registerServerChanBotWebhookTarget_def Let_def
          targets_at_def)
  qed
qed

text \<open>
  C9: let \<open>un\<close> be the closure that a registration returns, in a registry reached by any
  sequence of operations. Calling \<open>un\<close> twice leaves any registry in the state that
  calling it once does. In every state reached after the registration, a call of \<open>un\<close>
  removes the registered entry and nothing else: at every path the other targets stay,
  in their order. Called right after the registration it restores the map of targets.
\<close>

theorem unregister_idempotent_exact:
  assumes "registerServerChanBotWebhookTarget target (run_ops ops empty_registry) = (un, reg1)"
  shows "run_unregister un (run_unregister un reg2) = run_unregister un reg2 \<and>
         targets_at (run_unregister un (run_ops ops2 reg1)) k =
           filter (\<lambda>e. e \<noteq> \<lparr> entry_ref = closure_target un,
                               entry_target = target\<lparr>path := closure_key un\<rparr> \<rparr>)
             (targets_at (run_ops ops2 reg1) k) \<and>
         webhookTargets (run_unregister un reg1) = webhookTargets (run_ops ops empty_registry)"
proof -
  let ?reg = "run_ops ops empty_registry"
  have ok: "registry_ok ?reg"
    by (rule registry_ok_run_ops [OF registry_ok_empty])
  have fr: "refs_fresh ?reg"
    by (rule refs_fresh_run_ops [OF refs_fresh_empty])
  from assms have un: "un = fst (registerServerChanBotWebhookTarget target ?reg)"
    and reg1: "reg1 = snd (registerServerChanBotWebhookTarget target ?reg)"
    by simp_all
  from un have c: "closure_target un = next_ref ?reg"
    "closure_key un = normalizeWebhookPath (path target)"
    by (simp_all add: registerServerChanBotWebhookTarget_def Let_def)
  from register_owns_ref [OF fr, of target] c reg1
  have "owns_ref (closure_target un) (closure_key un)
          \<lparr> entry_ref = closure_target un, entry_target = target\<lparr>path := closure_key un\<rparr> \<rparr>
          reg1"
    by simp
  then have "owns_ref (closure_target un) (closure_key un)
          \<lparr> entry_ref = closure_target un, entry_target = target\<lparr>path := closure_key un\<rparr> \<rparr>
          (run_ops ops2 reg1)"
    by (rule owns_ref_run_ops)
  then have b: "targets_at (run_unregister un (run_ops ops2 reg1)) k =
           filter (\<lambda>e. e \<noteq> \<lparr> entry_ref = closure_target un,
                               entry_target = target\<lparr>path := closure_key un\<rparr> \<rparr>)
             (targets_at (run_ops ops2 reg1) k)"
    by (rule unregister_removes_entry) simp
  from register_then_unregister [OF ok fr, of target] un reg1
  have "webhookTargets (run_unregister un reg1) = webhookTargets ?reg"
    by simp
  with b show ?thesis
    by (simp add: run_unregister_idem)
qed

lemma one_tenant_left_hook:
  "webhookTargets one_tenant_left ''/hook'' =
     Some [\<lparr> entry_ref = 1, entry_target = example_target ''b'' ''/hook'' (Some ''beta'') \<rparr>]"
  by (simp add: one_tenant_left_def run_ops_def registerServerChanBotWebhookTarget_def
      run_unregister_def empty_registry_def targets_at_def normalizeWebhookPath_examples
      example_target_def Let_def)

theorem registry_invariant_witness:
  "webhookTargets one_tenant_left ''/hook'' =
     Some [\<lparr> entry_ref = 1, entry_target = example_target ''b'' ''/hook'' (Some ''beta'') \<rparr>] \<and>
   path (entry_target
     \<lparr> entry_ref = 1, entry_target = example_target ''b'' ''/hook'' (Some ''beta'') \<rparr>) = ''/hook'' \<and>
   (\<exists>raw. ''/hook'' = normalizeWebhookPath raw)"
  using registry_invariant
    [of "[Register (example_target ''a'' ''/hook'' (Some ''alpha'')),
          Register (example_target ''b'' ''hook/'' (Some ''beta'')),
          Unregister \<lparr> closure_key = ''/hook'', closure_target = 0 \<rparr>]"
        "''/hook''"
        "[\<lparr> entry_ref = 1, entry_target = example_target ''b'' ''/hook'' (Some ''beta'') \<rparr>]"]
    one_tenant_left_hook
  by (simp add: one_tenant_left_def)

lemma register_second_tenant:
  "registerServerChanBotWebhookTarget (example_target ''b'' ''hook/'' (Some ''beta''))
     (run_ops [Register (example_target ''a'' ''/hook'' (Some ''alpha''))] empty_registry) =
   (\<lparr> closure_key = ''/hook'', closure_target = 1 \<rparr>, two_tenants)"
  by (simp add: two_tenants_def run_ops_def registerServerChanBotWebhookTarget_def Let_def
      normalizeWebhookPath_examples example_target_def empty_registry_def targets_at_def)

theorem unregister_idempotent_exact_witness:
  "run_unregister \<lparr> closure_key = ''/hook'', closure_target = 1 \<rparr>
     (run_unregister \<lparr> closure_key = ''/hook'', closure_target = 1 \<rparr> two_tenants) =
   run_unregister \<lparr> closure_key = ''/hook'', closure_target = 1 \<rparr> two_tenants \<and>
   targets_at (run_unregister \<lparr> closure_key = ''/hook'', closure_target = 1 \<rparr> two_tenants)
     ''/hook'' =
   [\<lparr> entry_ref = 0, entry_target = example_target ''a'' ''/hook'' (Some ''alpha'') \<rparr>]"
proof -
  note t = unregister_idempotent_exact
    [OF register_second_tenant, of two_tenants "[]" "''/hook''"]
  from t have a: "run_unregister \<lparr> closure_key = ''/hook'', closure_target = 1 \<rparr>
     (run_unregister \<lparr> closure_key = ''/hook'', closure_target = 1 \<rparr> two_tenants) =
     run_unregister \<lparr> closure_key = ''/hook'', closure_target = 1 \<rparr> two_tenants"
    by (rule conjunct1)
  have b: "targets_at (run_unregister \<lparr> closure_key = ''/hook'', closure_target = 1 \<rparr>
      two_tenants) ''/hook'' =
    [\<lparr> entry_ref = 0, entry_target = example_target ''a'' ''/hook'' (Some ''alpha'') \<rparr>]"
    by (simp add: targets_at_unregister targets_at_Some [OF two_tenants_hook])
  from a b show ?thesis
    by simp
qed

section \<open>Properties of the list of account identifiers\<close>

lemma listAccountIds_contains_default:
  "\<exists>ids. listServerChanBotAccountIds d cfg = Inr ids \<and> d \<in> set ids"
  by (cases "prop_opt (prop_opt cfg ''channels'') ''serverchan-bot''")
    (auto simp add: listServerChanBotAccountIds_def Let_def get_prop_def nullish_def)

lemma listAccountIds_no_section:
  "\<not> truthy (prop_opt (prop_opt cfg ''channels'') ''serverchan-bot'') \<Longrightarrow>
   listServerChanBotAccountIds d cfg = Inr [d]"
  by (simp add: listServerChanBotAccountIds_def)

lemma listAccountIds_no_accounts:
  "\<not> is_object (own_prop (prop_opt (prop_opt cfg ''channels'') ''serverchan-bot'') ''accounts'') \<Longrightarrow>
   listServerChanBotAccountIds d cfg = Inr [d]"
  by (cases "prop_opt (prop_opt cfg ''channels'') ''serverchan-bot''")
    (auto simp add: listServerChanBotAccountIds_def Let_def get_prop_def nullish_def
      is_object_def)

lemma listAccountIds_default_added_first:
  assumes "d \<notin> set (object_keys accounts)" and "is_object accounts"
    and "own_prop (prop_opt (prop_opt cfg ''channels'') ''serverchan-bot'') ''accounts'' = accounts"
    and "truthy (prop_opt (prop_opt cfg ''channels'') ''serverchan-bot'')"
  shows "\<exists>ids. listServerChanBotAccountIds d cfg = Inr (d # ids)"
  using assms
  by (cases "prop_opt (prop_opt cfg ''channels'') ''serverchan-bot''")
    (auto simp add: listServerChanBotAccountIds_def Let_def get_prop_def nullish_def
      is_object_def)

text \<open>
  C3: the list of account identifiers always includes the default identifier, placed
  first. The code's comment reads \<^verbatim>\<open>Ensure default is first if present\<close>; the code
  adds the default identifier in front when it is missing and leaves it where it is
  when it is present. With the accounts \<^verbatim>\<open>work\<close> and \<^verbatim>\<open>default\<close> configured in this
  order the list is \<^verbatim>\<open>["work", "default"]\<close>: the default identifier is second.
\<close>

theorem listAccountIds_default_not_first:
  "listServerChanBotAccountIds ''default'' cfg_work_default = Inr [''work'', ''default'']"
  by (simp add: listServerChanBotAccountIds_def cfg_work_default_def prop_opt_def get_prop_def
      nullish_def trim_def js_whitespace_def)

theorem listAccountIds_default_not_first_witness:
  "\<exists>ids. listServerChanBotAccountIds ''default'' cfg_work_default = Inr ids \<and>
         ''default'' \<in> set ids \<and> hd ids = ''work''"
  using listAccountIds_default_not_first
  by simp

section \<open>Properties of the polling loop\<close>

lemma digits_examples: "digits (Suc 0) = ''1''" "digits 42 = ''42''" "digits 500 = ''500''"
  by (simp_all add: digits.simps [of "Suc 0"] digits.simps [of 42] digits.simps [of 4]
      digits.simps [of 500] digits.simps [of 50] digits.simps [of 5])

lemma polling_throw_backs_off:
  "poll_iteration onUpdate (FetchThrows err) st =
     st\<lparr> effects := effects st @ [GetUpdates (Num 30) (offset st), ConsoleError err, Sleep 5000] \<rparr>"
  by (simp add: poll_iteration_def serverChanBotGetUpdates_def polling_catch_def)

lemma polling_non_2xx_goes_on:
  "\<not> (200 \<le> status \<and> status \<le> 299) \<Longrightarrow>
   poll_iteration onUpdate (FetchResponse status statusText body) st =
     st\<lparr> effects := effects st @ [GetUpdates (Num 30) (offset st)] \<rparr>"
  by (simp add: poll_iteration_def serverChanBotGetUpdates_def)

lemma polling_empty_result_goes_on:
  "poll_iteration onUpdate
     (FetchResponse 200 statusText (Inr \<lparr> ok = True, result = [], error = None \<rparr>)) st =
     st\<lparr> effects := effects st @ [GetUpdates (Num 30) (offset st)] \<rparr>"
  by (simp add: poll_iteration_def serverChanBotGetUpdates_def)

lemma polling_running_without_abort:
  "Aborted \<notin> set ticks \<Longrightarrow> fst (monitorServerChanBotPolling onUpdate ticks st) = Running"
  by (induction onUpdate ticks st rule: monitorServerChanBotPolling.induct) simp_all

lemma polling_returns_iff_aborted:
  "(fst (monitorServerChanBotPolling onUpdate ticks st) = Returned) = (Aborted \<in> set ticks)"
  by (induction onUpdate ticks st rule: monitorServerChanBotPolling.induct) simp_all

text \<open>
  C2: an iteration whose fetch fails logs, sleeps 5 seconds and goes on. When the server
  answers with a status outside 200 to 299 (here 500), \<^verbatim>\<open>serverChanBotGetUpdates\<close>
  returns \<^verbatim>\<open>{ok: false, result: []}\<close> and does not throw; the iteration then does nothing
  after the request, neither the log nor the sleep of the \<^verbatim>\<open>catch\<close> block, and the next
  request follows at once.
\<close>

theorem polling_http_error_no_backoff:
  "poll_iteration onUpdate (FetchResponse 500 ''Internal Server Error'' body) st =
     st\<lparr> effects := effects st @ [GetUpdates (Num 30) (offset st)] \<rparr> \<and>
   monitorServerChanBotPolling onUpdate
     [Iteration (FetchResponse 500 ''Internal Server Error'' body),
      Iteration (FetchResponse 500 ''Internal Server Error'' body)] initial_poll_state =
     (Running, \<lparr> offset = Num 0,
                 effects = [GetUpdates (Num 30) (Num 0), GetUpdates (Num 30) (Num 0)] \<rparr>)"
  by (simp add: poll_iteration_def serverChanBotGetUpdates_def initial_poll_state_def)

text \<open>
  C7: Scenario 1. The poll returns \<^verbatim>\<open>ok\<close> with the single update of identifier 5,
  message 1, \<^verbatim>\<open>chat_id\<close> 42 and text \<^verbatim>\<open>hi\<close>. One iteration of the loop, with the update
  processor as its callback, moves the offset from 0 to 6 and runs the processor once:
  it calls the dispatcher once, with the chat identifier \<^verbatim>\<open>"42"\<close>. The chat identifier is
  the nested chat object's \<^verbatim>\<open>id\<close>, else the \<^verbatim>\<open>chat_id\<close> field, else the sender's \<^verbatim>\<open>id\<close>.
\<close>

theorem polling_happy_path:
  "poll_iteration (\<lambda>u. (processServerChanBotUpdate acct now u, None))
     (FetchResponse 200 ''OK'' (Inr \<lparr> ok = True, result = [update_5], error = None \<rparr>))
     initial_poll_state =
   \<lparr> offset = Num 6,
     effects =
       [GetUpdates (Num 30) (Num 0),
        LogInfo (''['' @ accountId acct @ ''] received message from 42: hi...''),
        StatusLastInboundAt now,
        DispatchReply
          \<lparr> Provider = ''serverchan-bot'', Surface = ''serverchan-bot'',
            Channel = ''serverchan-bot'', From = ''42'', To = ''42'', Body = ''hi'',
            RawBody = ''hi'', BodyForCommands = ''hi'', BodyForAgent = ''hi'',
            ChatType = ''direct'', AccountId = accountId acct, MessageSid = ''1'',
            MessageSidFull = ''serverchan-bot:1'', SessionKey = ''serverchan-bot:42'',
            SenderId = ''42'', Timestamp = Num now \<rparr>] \<rparr> \<and>
   updateChatId (u\<lparr> message := (message u)\<lparr> chat := Some (JObj [(''id'', JNum n)]) \<rparr> \<rparr>) = JNum n \<and>
   updateChatId (u\<lparr> message := (message u)\<lparr> chat := None, chat_id := Some n \<rparr> \<rparr>) = JNum n \<and>
   updateChatId (u\<lparr> message := (message u)
      \<lparr> chat := None, chat_id := None, msg_from := Some (JObj [(''id'', JNum n)]) \<rparr> \<rparr>) = JNum n"
  by (simp add: poll_iteration_def serverChanBotGetUpdates_def initial_poll_state_def
      update_5_def processServerChanBotUpdate_def updateChatId_def nullish_or_def nullish_def
      prop_opt_def digits_examples Let_def round_double_def)

section \<open>Properties of the mode decision\<close>

lemma resolveWebhookPath_None:
  "(resolveWebhookPath url_pathname wPath wUrl = None) =
     ((wPath = None \<or> (\<exists>p. wPath = Some p \<and> trim p = [])) \<and>
      (\<exists>u. wUrl = Some u \<and> trim u \<noteq> [] \<and> url_pathname u = None))"
  by (auto simp add: resolveWebhookPath_def split: option.splits)

lemma configured_iff: "configured field = (\<exists>s. field = Some s \<and> trim s \<noteq> [])"
  by (cases field) (simp_all add: configured_def)

text \<open>
  C8: the two decisions of \<^verbatim>\<open>startAccount\<close>, \<^verbatim>\<open>shouldPoll\<close> and \<^verbatim>\<open>wantsWebhook\<close>, are each
  other's negation for every account configuration. An explicit \<^verbatim>\<open>pollingEnabled\<close>
  decides both: polling exactly when it is true, webhook exactly when it is false. When
  it is not set, webhook is chosen exactly when one of \<^verbatim>\<open>webhookUrl\<close>, \<^verbatim>\<open>webhookPath\<close> and
  \<^verbatim>\<open>webhookSecret\<close> is set and not blank, and polling otherwise. For an account with a
  bot token \<^verbatim>\<open>startAccount\<close> acts on the decisions: it goes on to the polling loop
  exactly when polling is chosen; it registers a webhook target exactly when webhook is
  chosen and a path can be derived, and the target is the account's, at that path, with
  the trimmed secret; it logs an error exactly when webhook is chosen and no path can be
  derived; it never does both, and does one of the two whenever a path can be derived.
  Without a bot token it throws before deciding.
\<close>

theorem mode_decision:
  "shouldPoll c = (\<not> wantsWebhook c) \<and>
   (pollingEnabled c = Some b \<longrightarrow> shouldPoll c = b \<and> wantsWebhook c = (\<not> b)) \<and>
   (pollingEnabled c = None \<longrightarrow>
      wantsWebhook c =
        ((\<exists>s. webhookUrl c = Some s \<and> trim s \<noteq> []) \<or>
         (\<exists>s. webhookPath c = Some s \<and> trim s \<noteq> []) \<or>
         (\<exists>s. webhookSecret c = Some s \<and> trim s \<noteq> [])) \<and>
      shouldPoll c =
        (\<not> ((\<exists>s. webhookUrl c = Some s \<and> trim s \<noteq> []) \<or>
            (\<exists>s. webhookPath c = Some s \<and> trim s \<noteq> []) \<or>
            (\<exists>s. webhookSecret c = Some s \<and> trim s \<noteq> [])))) \<and>
   (c = config acct \<longrightarrow> botToken c = Some token \<longrightarrow> token \<noteq> [] \<longrightarrow>
      (\<exists>m. startAccount_mode url_pathname acct typedConfig = Inr m \<and>
           starts_polling m = shouldPoll c \<and>
           (registers m \<noteq> None) =
             (wantsWebhook c \<and>
              resolveWebhookPath url_pathname (webhookPath c) (webhookUrl c) \<noteq> None) \<and>
           (\<forall>p. wantsWebhook c \<longrightarrow>
                resolveWebhookPath url_pathname (webhookPath c) (webhookUrl c) = Some p \<longrightarrow>
                registers m =
                  Some \<lparr> account = acct, target_config = typedConfig, target_botToken = token,
                         path = p,
                         secret = (case webhookSecret c of
                                     None \<Rightarrow> None
                                   | Some s \<Rightarrow> if trim s = [] then None else Some (trim s)) \<rparr>) \<and>
           logs_no_path m =
             (wantsWebhook c \<and>
              resolveWebhookPath url_pathname (webhookPath c) (webhookUrl c) = None) \<and>
           \<not> (starts_polling m \<and> registers m \<noteq> None) \<and>
           (resolveWebhookPath url_pathname (webhookPath c) (webhookUrl c) \<noteq> None \<longrightarrow>
              starts_polling m \<or> registers m \<noteq> None))) \<and>
   (c = config acct \<longrightarrow> (botToken c = None \<or> botToken c = Some []) \<longrightarrow>
      startAccount_mode url_pathname acct typedConfig = Inl TokenNotConfigured)"
proof -
  have d: "shouldPoll c = (\<not> wantsWebhook c)"
    by (cases "pollingEnabled c") (simp_all add: shouldPoll_def wantsWebhook_def)
  have e: "pollingEnabled c = Some b \<longrightarrow> shouldPoll c = b \<and> wantsWebhook c = (\<not> b)"
    by (simp add: shouldPoll_def wantsWebhook_def)
  have w: "pollingEnabled c = None \<longrightarrow>
      wantsWebhook c =
        ((\<exists>s. webhookUrl c = Some s \<and> trim s \<noteq> []) \<or>
         (\<exists>s. webhookPath c = Some s \<and> trim s \<noteq> []) \<or>
         (\<exists>s. webhookSecret c = Some s \<and> trim s \<noteq> []))"
    by (simp add: wantsWebhook_def hasWebhookConfig_def configured_iff)
  have t: "c = config acct \<longrightarrow> (botToken c = None \<or> botToken c = Some []) \<longrightarrow>
      startAccount_mode url_pathname acct typedConfig = Inl TokenNotConfigured"
    by (auto simp add: startAccount_mode_def)
  have a: "c = config acct \<longrightarrow> botToken c = Some token \<longrightarrow> token \<noteq> [] \<longrightarrow>
      (\<exists>m. startAccount_mode url_pathname acct typedConfig = Inr m \<and>
           starts_polling m = shouldPoll c \<and>
           (registers m \<noteq> None) =
             (wantsWebhook c \<and>
              resolveWebhookPath url_pathname (webhookPath c) (webhookUrl c) \<noteq> None) \<and>
           (\<forall>p. wantsWebhook c \<longrightarrow>
                resolveWebhookPath url_pathname (webhookPath c) (webhookUrl c) = Some p \<longrightarrow>
                registers m =
                  Some \<lparr> account = acct, target_config = typedConfig, target_botToken = token,
                         path = p,
                         secret = (case webhookSecret c of
                                     None \<Rightarrow> None
                                   | Some s \<Rightarrow> if trim s = [] then None else Some (trim s)) \<rparr>) \<and>
           logs_no_path m =
             (wantsWebhook c \<and>
              resolveWebhookPath url_pathname (webhookPath c) (webhookUrl c) = None) \<and>
           \<not> (starts_polling m \<and> registers m \<noteq> None) \<and>
           (resolveWebhookPath url_pathname (webhookPath c) (webhookUrl c) \<noteq> None \<longrightarrow>
              starts_polling m \<or> registers m \<noteq> None))"
    using d
    by (cases "resolveWebhookPath url_pathname (webhookPath c) (webhookUrl c)")
      (auto simp add: startAccount_mode_def Let_def)
  from d e w t a show ?thesis
    by simp
qed

theorem mode_decision_witness:
  "startAccount_mode (\<lambda>u. None) account_secret (JObj []) =
     Inr \<lparr> registers =
             Some \<lparr> account = account_secret, target_config = JObj [],
                    target_botToken = ''token'', path = ''/serverchan-bot'',
                    secret = Some ''s3cret'' \<rparr>,
           logs_no_path = False, starts_polling = False \<rparr> \<and>
   startAccount_mode (\<lambda>u. None) account_blank (JObj []) =
     Inr \<lparr> registers = None, logs_no_path = False, starts_polling = True \<rparr> \<and>
   startAccount_mode (\<lambda>u. Some ''/hook'') account_polling_forced (JObj []) =
     Inr \<lparr> registers = None, logs_no_path = False, starts_polling = True \<rparr> \<and>
   startAccount_mode (\<lambda>u. None) account_webhook_forced (JObj []) =
     Inr \<lparr> registers =
             Some \<lparr> account = account_webhook_forced, target_config = JObj [],
                    target_botToken = ''token'', path = ''/serverchan-bot'', secret = None \<rparr>,
           logs_no_path = False, starts_polling = False \<rparr> \<and>
   startAccount_mode (\<lambda>u. None) account_bad_url (JObj []) =
     Inr \<lparr> registers = None, logs_no_path = True, starts_polling = False \<rparr> \<and>
   startAccount_mode (\<lambda>u. None) account_no_token (JObj []) = Inl TokenNotConfigured"
proof -
  have tr: "trim '' s3cret '' = ''s3cret''" "trim ''  '' = []" "trim '' '' = []"
    "trim [] = []" "trim [CHR 0x09, CHR 0x20] = []" "trim ''not a url'' = ''not a url''"
    "trim ''https://example.org/hook'' = ''https://example.org/hook''"
    by (simp_all add: trim_def js_whitespace_def)
  have c: "config account_secret =
      (config (example_account ''a''))
        \<lparr> webhookPath := Some ''  '', webhookSecret := Some '' s3cret '' \<rparr>"
    "config account_blank =
      (config (example_account ''a''))
        \<lparr> webhookUrl := Some '' '', webhookPath := Some [],
          webhookSecret := Some [CHR 0x09, CHR 0x20] \<rparr>"
    "config account_polling_forced =
      (config (example_account ''a''))
        \<lparr> webhookUrl := Some ''https://example.org/hook'', pollingEnabled := Some True \<rparr>"
    "config account_webhook_forced =
      (config (example_account ''a''))\<lparr> pollingEnabled := Some False \<rparr>"
    "config account_bad_url =
      (config (example_account ''a''))\<lparr> webhookUrl := Some ''not a url'' \<rparr>"
    "config account_no_token = (config (example_account ''a''))\<lparr> botToken := None \<rparr>"
    by (simp_all add: account_secret_def account_blank_def account_polling_forced_def
        account_webhook_forced_def account_bad_url_def account_no_token_def account_with_def)
  have r: "resolveWebhookPath (\<lambda>u. None) (Some ''  '') None = Some ''/serverchan-bot''"
    "resolveWebhookPath (\<lambda>u. None) None None = Some ''/serverchan-bot''"
    "resolveWebhookPath (\<lambda>u. None) None (Some ''not a url'') = None"
    by (simp_all add: resolveWebhookPath_def tr)
  note m = mode_decision [of _ _ _ _ _ "JObj []"]
  from m [of "config account_secret" _ account_secret "''token''" "\<lambda>u. None"]
  have 1: "startAccount_mode (\<lambda>u. None) account_secret (JObj []) =
     Inr \<lparr> registers =
             Some \<lparr> account = account_secret, target_config = JObj [],
                    target_botToken = ''token'', path = ''/serverchan-bot'',
                    secret = Some ''s3cret'' \<rparr>,
           logs_no_path = False, starts_polling = False \<rparr>"
    by (auto simp add: c example_account_def tr r)
  from m [of "config account_blank" _ account_blank "''token''" "\<lambda>u. None"]
  have 2: "startAccount_mode (\<lambda>u. None) account_blank (JObj []) =
     Inr \<lparr> registers = None, logs_no_path = False, starts_polling = True \<rparr>"
    by (auto simp add: c example_account_def tr)
  from m [of "config account_polling_forced" True account_polling_forced "''token''"
      "\<lambda>u. Some ''/hook''"]
  have 3: "startAccount_mode (\<lambda>u. Some ''/hook'') account_polling_forced (JObj []) =
     Inr \<lparr> registers = None, logs_no_path = False, starts_polling = True \<rparr>"
    by (auto simp add: c example_account_def tr)
  from m [of "config account_webhook_forced" False account_webhook_forced "''token''"
      "\<lambda>u. None"]
  have 4: "startAccount_mode (\<lambda>u. None) account_webhook_forced (JObj []) =
     Inr \<lparr> registers =
             Some \<lparr> account = account_webhook_forced, target_config = JObj [],
                    target_botToken = ''token'', path = ''/serverchan-bot'', secret = None \<rparr>,
           logs_no_path = False, starts_polling = False \<rparr>"
    by (auto simp add: c example_account_def tr r)
  from m [of "config account_bad_url" _ account_bad_url "''token''" "\<lambda>u. None"]
  have 5: "startAccount_mode (\<lambda>u. None) account_bad_url (JObj []) =
     Inr \<lparr> registers = None, logs_no_path = True, starts_polling = False \<rparr>"
    by (auto simp add: c example_account_def tr r)
  from m [of "config account_no_token" _ account_no_token _ "\<lambda>u. None"]
  have 6: "startAccount_mode (\<lambda>u. None) account_no_token (JObj []) = Inl TokenNotConfigured"
    by (simp add: c example_account_def)
  from 1 2 3 4 5 6 show ?thesis
    by simp
qed

end
